theory Spec2Isabelle
  imports Main "HOL-Library.Sublist"
begin

section \<open>Exit codes\<close>

text \<open>
  \<^verbatim>\<open>EXIT_CODES\<close> of \<^verbatim>\<open>src/task/RalphLoop.mjs\<close>, with the number each name stands for.
\<close>

datatype exit_code =
    SUCCESS | INIT_FAILED | SCHEMA_INVALID | TASK_FAILED | TASK_BLOCKED
  | NETWORK_ERROR | CLAUDE_ERROR | FILE_NOT_FOUND | INVALID_ARGS | UNKNOWN

fun exit_value :: "exit_code \<Rightarrow> nat" where
  "exit_value SUCCESS = 0"
| "exit_value INIT_FAILED = 1"
| "exit_value SCHEMA_INVALID = 2"
| "exit_value TASK_FAILED = 3"
| "exit_value TASK_BLOCKED = 4"
| "exit_value NETWORK_ERROR = 5"
| "exit_value CLAUDE_ERROR = 6"
| "exit_value FILE_NOT_FOUND = 7"
| "exit_value INVALID_ARGS = 8"
| "exit_value UNKNOWN = 99"

section \<open>Values of the host language\<close>

text \<open>
  What \<^verbatim>\<open>JSON.parse\<close> returns: the agent's events, its structured results and the
  configuration documents are values of this type. Numbers are carried as integers (the
  engine reads a number only for its truthiness). An object is the list of its members in
  order; \<^verbatim>\<open>undefined\<close> is the \<open>None\<close> of an option.
\<close>

datatype json =
    JNull | JBool bool | JNum int | JStr string | JArr "json list" | JObj "(string \<times> json) list"

datatype js_error = TypeError | Error string

fun truthy :: "json \<Rightarrow> bool" where
  "truthy JNull = False"
| "truthy (JBool b) = b"
| "truthy (JNum n) = (n \<noteq> 0)"
| "truthy (JStr s) = (s \<noteq> [])"
| "truthy (JArr xs) = True"
| "truthy (JObj kvs) = True"

fun truthy_opt :: "json option \<Rightarrow> bool" where
  "truthy_opt None = False"
| "truthy_opt (Some v) = truthy v"

text \<open>
  \<^verbatim>\<open>v.key\<close> on a value that is not \<^verbatim>\<open>null\<close>: the member of an object, \<^verbatim>\<open>undefined\<close> on
  anything else (none of the keys the engine reads is a property of a string, a number, a
  boolean or an array). On \<^verbatim>\<open>null\<close> the read raises; each caller below tests for it first.
\<close>

fun js_prop :: "json \<Rightarrow> string \<Rightarrow> json option" where
  "js_prop (JObj kvs) k = map_of kvs k"
| "js_prop v k = None"

text \<open>\<^verbatim>\<open>v?.key\<close>, on a value that may be \<^verbatim>\<open>undefined\<close> or \<^verbatim>\<open>null\<close>.\<close>

fun js_opt_prop :: "json option \<Rightarrow> string \<Rightarrow> json option" where
  "js_opt_prop None k = None"
| "js_opt_prop (Some JNull) k = None"
| "js_opt_prop (Some v) k = js_prop v k"

text \<open>
  Writing a member of an object: a member that is there keeps its place and takes the new
  value, a new one comes last. \<^verbatim>\<open>JSON.parse\<close> treats a member read twice the same way.
\<close>

fun obj_put :: "string \<Rightarrow> json \<Rightarrow> (string \<times> json) list \<Rightarrow> (string \<times> json) list" where
  "obj_put k v [] = [(k, v)]"
| "obj_put k v ((k', v') # kvs) = (if k = k' then (k, v) # kvs else (k', v') # obj_put k v kvs)"

subsection \<open>Strings\<close>

text \<open>
  A string is the list of its code units, here the 8-bit ones. \<^verbatim>\<open>js_space\<close> is the class
  \<^verbatim>\<open>\s\<close> of a regular expression, which is also what \<^verbatim>\<open>trim\<close> strips, on these code units.
\<close>

definition js_space :: "char \<Rightarrow> bool" where
  "js_space c = (c \<in> {CHR 0x09, CHR 0x0A, CHR 0x0B, CHR 0x0C, CHR 0x0D, CHR 0x20, CHR 0xA0})"

definition trim :: "string \<Rightarrow> string" where
  "trim s = rev (dropWhile js_space (rev (dropWhile js_space s)))"

text \<open>\<^verbatim>\<open>s.split(c)\<close> for a one-character separator: never the empty list.\<close>

fun split_on :: "char \<Rightarrow> string \<Rightarrow> string list" where
  "split_on c [] = [[]]"
| "split_on c (x # xs) =
     (if x = c then [] # split_on c xs
      else (case split_on c xs of [] \<Rightarrow> [[x]] | l # ls \<Rightarrow> (x # l) # ls))"

text \<open>
  The first occurrence of a pattern in a text: what stands before it and what stands
  after it.
\<close>

fun find_sub :: "string \<Rightarrow> string \<Rightarrow> (string \<times> string) option" where
  "find_sub pat [] = (if pat = [] then Some ([], []) else None)"
| "find_sub pat (c # cs) =
     (if prefix pat (c # cs) then Some ([], drop (length pat) (c # cs))
      else map_option (\<lambda>(before, after). (c # before, after)) (find_sub pat cs))"

text \<open>Decimal numerals, as a template literal prints a number.\<close>

definition show_digit :: "nat \<Rightarrow> char" where
  "show_digit n = ''0123456789'' ! (n mod 10)"

fun show_nat :: "nat \<Rightarrow> string" where
  "show_nat n = (if n < 10 then [show_digit n] else show_nat (n div 10) @ [show_digit (n mod 10)])"

definition show_int :: "int \<Rightarrow> string" where
  "show_int i = (if i < 0 then CHR ''-'' # show_nat (nat (- i)) else show_nat (nat i))"

section \<open>The documents\<close>

text \<open>
  The work item (\<^verbatim>\<open>prd.json\<close>) and the progress record (\<^verbatim>\<open>progress.json\<close>), with the fields
  the engine decides on, at the types the documents give them: ids, states and names are
  strings, the dependencies of a user story are a list of ids, its commits and the target
  directories of the work item are lists. What the engine reads with a default
  (\<^verbatim>\<open>prd.prdId\<close>, \<^verbatim>\<open>progress.templateSet\<close>, \<^verbatim>\<open>progress.configPath\<close>) is an option, \<open>None\<close> for
  a field that is absent or \<^verbatim>\<open>null\<close>. Fields the engine only shows or hands on to the prompt
  (titles, branch name, affected repositories, acceptance criteria) are left out: on
  documents of these types showing them and formatting the prompt returns. Names that
  clash with a constant of HOL or with a field of another record carry a prefix.
\<close>

record subtask =
  story_id :: string
  story_status :: string
  dependencies :: "string list"
  story_commits :: "json list"

record prd =
  prd_id :: string
  prd_prdId :: "string option"
  targetDirs :: "json list"
  userStories :: "subtask list"

record last_error =
  err_taskId :: string
  err_message :: json
  err_timestamp :: string

record progress =
  prdId :: string
  startedAt :: string
  completedAt :: "string option"
  completedTasks :: "string list"
  currentTask :: "string option"
  status :: string
  totalTasks :: nat
  lastError :: "last_error option"
  summary :: "string option"
  templateSet :: "string option"
  configPath :: "string option"

section \<open>The task graph resolver\<close>

text \<open>
  \<^verbatim>\<open>RalphLoop.findNextTask\<close>: \<^verbatim>\<open>Array.prototype.find\<close> over the user stories with the three
  tests of the callback in their order; \<^verbatim>\<open>|| null\<close> is the \<open>None\<close> of \<^const>\<open>find\<close>.
\<close>

definition findNextTask :: "subtask list \<Rightarrow> string list \<Rightarrow> subtask option" where
  "findNextTask stories completedIds =
     (let completedSet = set completedIds in
      find (\<lambda>story.
              if story_id story \<in> completedSet then False
              else if story_status story = ''completed'' \<or> story_status story = ''failed''
                then False
              else list_all (\<lambda>depId. depId \<in> completedSet) (dependencies story))
        stories)"

section \<open>Result extraction\<close>

text \<open>
  \<^verbatim>\<open>RalphLoop.extractJson\<close>. \<^verbatim>\<open>JSON.parse\<close> belongs to the platform and is a parameter
  \<open>parse\<close>, \<open>None\<close> where it raises.

  A line of a stream contributes a text when it parses to an \<^verbatim>\<open>assistant\<close> event whose
  content has an entry of type \<^verbatim>\<open>text\<close> with a truthy \<^verbatim>\<open>text\<close>. Whatever raises inside the
  \<^verbatim>\<open>try\<close> block (the parse, a read on \<^verbatim>\<open>null\<close>, \<^verbatim>\<open>find\<close> on a content that is no array)
  skips the line.
\<close>

text \<open>
  \<^verbatim>\<open>content.find( ( c ) => c.type === ty )\<close>: \<open>Inl TypeError\<close> when an entry reached
  before the match is \<^verbatim>\<open>null\<close>.
\<close>

fun find_entry :: "string \<Rightarrow> json list \<Rightarrow> js_error + json option" where
  "find_entry ty [] = Inr None"
| "find_entry ty (c # cs) =
     (if c = JNull then Inl TypeError
      else if js_prop c ''type'' = Some (JStr ty) then Inr (Some c)
      else find_entry ty cs)"

definition assistant_text :: "(string \<Rightarrow> json option) \<Rightarrow> string \<Rightarrow> json option" where
  "assistant_text parse line =
     (case parse line of
        None \<Rightarrow> None
      | Some parsed \<Rightarrow>
          if parsed = JNull then None
          else if js_prop parsed ''type'' = Some (JStr ''assistant'') then
            (let content =
                   (case js_opt_prop (js_opt_prop (Some parsed) ''message'') ''content'' of
                      None \<Rightarrow> JArr []
                    | Some c \<Rightarrow> if truthy c then c else JArr [])
             in case content of
                  JArr entries \<Rightarrow>
                    (case find_entry ''text'' entries of
                       Inl e \<Rightarrow> None
                     | Inr textContent \<Rightarrow>
                         (let t = js_opt_prop textContent ''text''
                          in if truthy_opt t then t else None))
                | _ \<Rightarrow> None)
          else None)"

definition isStreamJson :: "string \<Rightarrow> bool" where
  \<open>isStreamJson text =
     (let lines = split_on CHR 0x0A (trim text)
      in 1 < length lines \<and> prefix ''{"type":'' (hd lines))\<close>

text \<open>
  The candidate text: the last assistant text of a stream that has one, the whole input
  otherwise. An assistant text is whatever truthy value the event carries, so the
  candidate is a value.
\<close>

definition contentText :: "(string \<Rightarrow> json option) \<Rightarrow> string \<Rightarrow> json" where
  "contentText parse text =
     (if isStreamJson text then
        (let assistantTexts = List.map_filter (assistant_text parse) (split_on CHR 0x0A (trim text))
         in if 0 < length assistantTexts then last assistantTexts else JStr text)
      else JStr text)"

text \<open>
  The regular expression \<^verbatim>\<open>/```(?:json)?\s*([\s\S]*?)```/\<close>: the match starts at the first
  fence; after an optional \<^verbatim>\<open>json\<close> and the white space that follows, the group captures
  up to the next fence. No text after the first fence holds a fence exactly when the
  expression does not match.
\<close>

definition fence_match :: "string \<Rightarrow> string option" where
  "fence_match s =
     (case find_sub ''```'' s of
        None \<Rightarrow> None
      | Some (before, after) \<Rightarrow>
          (let rest = dropWhile js_space (if prefix ''json'' after then drop 4 after else after)
           in map_option fst (find_sub ''```'' rest)))"

text \<open>
  The regular expression \<^verbatim>\<open>/(\{[\s\S]*\})/\<close>: greedy, so the group runs from the first
  opening brace to the last closing brace after it.
\<close>

definition object_match :: "string \<Rightarrow> string option" where
  "object_match s =
     (let from_brace = dropWhile (\<lambda>c. c \<noteq> CHR ''{'') s;
          span = rev (dropWhile (\<lambda>c. c \<noteq> CHR ''}'') (rev from_brace))
      in if span = [] then None else Some span)"

datatype extracted = Parsed json | ParseError

text \<open>
  From the candidate to the result. \<^verbatim>\<open>contentText.match\<close> is outside the \<^verbatim>\<open>try\<close> block:
  on a candidate that is no string the function raises.
\<close>

definition jsonStr :: "string \<Rightarrow> string" where
  "jsonStr candidate =
     (let s1 = (case fence_match candidate of Some inner \<Rightarrow> inner | None \<Rightarrow> candidate)
      in case object_match s1 of Some obj \<Rightarrow> obj | None \<Rightarrow> s1)"

definition parse_candidate :: "(string \<Rightarrow> json option) \<Rightarrow> string \<Rightarrow> extracted" where
  "parse_candidate parse candidate =
     (case parse (trim (jsonStr candidate)) of
        Some parsed \<Rightarrow> Parsed parsed
      | None \<Rightarrow> ParseError)"

definition extractJson :: "(string \<Rightarrow> json option) \<Rightarrow> string \<Rightarrow> js_error + extracted" where
  "extractJson parse text =
     (case contentText parse text of
        JStr candidate \<Rightarrow> Inr (parse_candidate parse candidate)
      | _ \<Rightarrow> Inl TypeError)"

section \<open>The agent invocation adapter\<close>

text \<open>
  \<^verbatim>\<open>Print.parseStreamChunk\<close>: the buffered remainder and the new chunk are cut at line
  feeds; every complete line that is not blank and parses is an event, the last piece is
  the new remainder.
\<close>

definition parseStreamChunk ::
  "(string \<Rightarrow> json option) \<Rightarrow> string \<Rightarrow> string \<Rightarrow> json list \<times> string" where
  "parseStreamChunk parse chunk buffer =
     (let lines = split_on CHR 0x0A (buffer @ chunk);
          completeLines = butlast lines;
          remainingBuffer = last lines;
          events = List.map_filter (\<lambda>line. if trim line = [] then None else parse line) completeLines
      in (events, remainingBuffer))"

text \<open>
  The external process, as \<^verbatim>\<open>RalphLoop.callClaude\<close> sees it: the chunks its standard output
  delivers, in order, what it wrote to standard error, and how it ended: \<^verbatim>\<open>close\<close> with an
  exit code (\<open>None\<close> for \<^verbatim>\<open>null\<close>, a process ended by a signal), or \<^verbatim>\<open>error\<close> when it could
  not be started.
\<close>

datatype proc_end = Close "int option" | SpawnError string

record proc =
  stdout_chunks :: "string list"
  stderr_text :: string
  ending :: proc_end

record claude_result =
  cr_output :: "string option"
  cr_error :: "string option"
  contextManagement :: "json option"
  structuredOutput :: "json option"

record stream_state =
  stdout :: string
  streamBuffer :: string
  seen_contextManagement :: "json option"
  seen_structuredOutput :: "json option"

text \<open>
  \<^verbatim>\<open>Print.getStatusFromEvent\<close> renders the status line of an event. What it shows is left
  out; where it raises is kept, since nothing catches it: on an event that is \<^verbatim>\<open>null\<close>, on
  an assistant event whose truthy content is no array or has a \<^verbatim>\<open>null\<close> entry before the
  entry it looks for, on a tool use whose name is no string or whose file path or command
  has no string method to call, on a truthy text that is no string.
\<close>

definition lower_char :: "char \<Rightarrow> char" where
  "lower_char c =
     (let n = (of_char c :: nat)
      in if (65 \<le> n \<and> n \<le> 90) \<or> (192 \<le> n \<and> n \<le> 222 \<and> n \<noteq> 215) then char_of (n + 32)
         else c)"

definition git_commands :: "string list" where
  "git_commands =
     [''git commit'', ''git add'', ''git checkout'', ''git push'', ''git pull'', ''git merge'',
      ''git rebase'', ''git stash'']"

text \<open>
  \<^verbatim>\<open>Print.#formatToolStatus\<close>: \<^verbatim>\<open>name.toLowerCase()\<close>, then \<^verbatim>\<open>filePath.split\<close> for the file tools
  and \<^verbatim>\<open>cmd.includes\<close>, \<^verbatim>\<open>cmd.substring\<close> for the shell (an array has the first and lacks the
  second).
\<close>

definition formatToolStatus_raises :: "json \<Rightarrow> bool" where
  "formatToolStatus_raises toolUse =
     (case js_prop toolUse ''name'' of
        Some (JStr name) \<Rightarrow>
          (let toolName = map lower_char name; input = js_prop toolUse ''input''
           in if toolName = ''read'' \<or> toolName = ''write'' \<or> toolName = ''edit'' then
                (case js_opt_prop input ''file_path'' of
                   None \<Rightarrow> False
                 | Some (JStr filePath) \<Rightarrow> False
                 | Some v \<Rightarrow> truthy v)
              else if toolName = ''bash'' then
                (case js_opt_prop input ''command'' of
                   None \<Rightarrow> False
                 | Some (JStr cmd) \<Rightarrow> False
                 | Some (JArr xs) \<Rightarrow> \<not> list_ex (\<lambda>g. JStr g \<in> set xs) git_commands
                 | Some v \<Rightarrow> truthy v)
              else False)
      | _ \<Rightarrow> True)"

definition getStatusFromEvent_raises :: "json \<Rightarrow> bool" where
  "getStatusFromEvent_raises event =
     (if event = JNull then True
      else if js_prop event ''type'' = Some (JStr ''system'') \<and>
              js_prop event ''subtype'' = Some (JStr ''init'') then False
      else if js_prop event ''type'' = Some (JStr ''assistant'') \<and>
              truthy_opt (js_opt_prop (js_prop event ''message'') ''content'') then
        (case js_opt_prop (js_prop event ''message'') ''content'' of
           Some (JArr entries) \<Rightarrow>
             (case find_entry ''tool_use'' entries of
                Inl e \<Rightarrow> True
              | Inr (Some toolUse) \<Rightarrow> formatToolStatus_raises toolUse
              | Inr None \<Rightarrow>
                  (case find_entry ''text'' entries of
                     Inl e \<Rightarrow> True
                   | Inr textContent \<Rightarrow>
                       (case js_opt_prop textContent ''text'' of
                          None \<Rightarrow> False
                        | Some (JStr t) \<Rightarrow> False
                        | Some v \<Rightarrow> truthy v)))
         | _ \<Rightarrow> True)
      else False)"

text \<open>
  One event of the stream, in the \<^verbatim>\<open>forEach\<close> of the \<^verbatim>\<open>data\<close> handler: the status line
  first, then the structured result of a result event and the context-compaction signal
  of an assistant event. The token counts it also updates are display only and left out.
\<close>

definition handle_event :: "json \<Rightarrow> stream_state \<Rightarrow> js_error + stream_state" where
  "handle_event event st =
     (if getStatusFromEvent_raises event then Inl TypeError
      else
        (let st1 =
               (if js_prop event ''type'' = Some (JStr ''result'') \<and>
                   truthy_opt (js_prop event ''structured_output'')
                then st\<lparr>seen_structuredOutput := js_prop event ''structured_output''\<rparr>
                else st);
             cm = js_opt_prop (js_prop event ''message'') ''context_management''
         in Inr (if js_prop event ''type'' = Some (JStr ''assistant'') \<and> truthy_opt cm
                 then st1\<lparr>seen_contextManagement := cm\<rparr>
                 else st1)))"

fun handle_events :: "json list \<Rightarrow> stream_state \<Rightarrow> js_error + stream_state" where
  "handle_events [] st = Inr st"
| "handle_events (e # es) st =
     (case handle_event e st of Inl err \<Rightarrow> Inl err | Inr st' \<Rightarrow> handle_events es st')"

text \<open>The \<^verbatim>\<open>data\<close> handler: events are read only with a progress display on.\<close>

definition on_data ::
  "(string \<Rightarrow> json option) \<Rightarrow> bool \<Rightarrow> string \<Rightarrow> stream_state \<Rightarrow> js_error + stream_state" where
  "on_data parse display chunk st =
     (let st1 = st\<lparr>stdout := stdout st @ chunk\<rparr>
      in if display then
           (case parseStreamChunk parse chunk (streamBuffer st1) of
              (events, buffer) \<Rightarrow> handle_events events (st1\<lparr>streamBuffer := buffer\<rparr>))
         else Inr st1)"

fun consume ::
  "(string \<Rightarrow> json option) \<Rightarrow> bool \<Rightarrow> string list \<Rightarrow> stream_state \<Rightarrow> js_error + stream_state" where
  "consume parse display [] st = Inr st"
| "consume parse display (chunk # chunks) st =
     (case on_data parse display chunk st of
        Inl err \<Rightarrow> Inl err
      | Inr st' \<Rightarrow> consume parse display chunks st')"

text \<open>Truthiness of a value that is a string or \<^verbatim>\<open>null\<close>.\<close>

fun truthy_str :: "string option \<Rightarrow> bool" where
  "truthy_str None = False"
| "truthy_str (Some s) = (s \<noteq> [])"

definition show_code :: "int option \<Rightarrow> string" where
  "show_code code = (case code of None \<Rightarrow> ''null'' | Some c \<Rightarrow> show_int c)"

text \<open>
  \<^verbatim>\<open>RalphLoop.callClaude\<close>. \<open>Inl\<close> is an exception out of the \<^verbatim>\<open>data\<close> handler, which ends the
  program; otherwise the promise resolves: on \<^verbatim>\<open>close\<close> with the whole output and whatever
  was captured, with a transport error unless the exit code is 0; on \<^verbatim>\<open>error\<close> with the
  error alone.
\<close>

definition callClaude ::
  "(string \<Rightarrow> json option) \<Rightarrow> bool \<Rightarrow> string option \<Rightarrow> proc \<Rightarrow> js_error + claude_result" where
  "callClaude parse showProgress tableMode p =
     (case ending p of
        SpawnError err \<Rightarrow>
          Inr \<lparr>cr_output = None, cr_error = Some err, contextManagement = None, structuredOutput = None\<rparr>
      | Close code \<Rightarrow>
          (case consume parse (showProgress \<or> truthy_str tableMode) (stdout_chunks p)
                  \<lparr>stdout = [], streamBuffer = [], seen_contextManagement = None,
                   seen_structuredOutput = None\<rparr> of
             Inl err \<Rightarrow> Inl err
           | Inr st \<Rightarrow>
               if code = Some 0 then
                 Inr \<lparr>cr_output = Some (stdout st), cr_error = None,
                      contextManagement = seen_contextManagement st,
                      structuredOutput = seen_structuredOutput st\<rparr>
               else
                 Inr \<lparr>cr_output = Some (stdout st),
                      cr_error = Some (''Claude exited with code '' @ show_code code @ '': '' @ stderr_text p),
                      contextManagement = seen_contextManagement st,
                      structuredOutput = seen_structuredOutput st\<rparr>))"

section \<open>Configuration and schema validation\<close>

text \<open>What the host platform supplies to the code below.\<close>

record host =
  parse :: "string \<Rightarrow> json option"
  parse_error :: "string \<Rightarrow> string"
  type_error :: string
  homedir :: string
  path_join :: "string list \<Rightarrow> string"
  readFile :: "string \<Rightarrow> string + string"
  expectedStructure :: string
  now :: string

text \<open>
  \<open>parse\<close> is \<^verbatim>\<open>JSON.parse\<close> and \<open>parse_error\<close> the message of the error it raises on a text;
  \<open>type_error\<close> is the message of a \<^verbatim>\<open>TypeError\<close>; \<open>readFile\<close> answers the content of a file
  or, as \<open>Inl\<close>, the message of the error; \<open>expectedStructure\<close> is the text of
  \<^verbatim>\<open>JSON.stringify( this.#defaultSetContent, null, 4 )\<close>; \<open>now\<close> is the reading of the clock.
\<close>

definition typeof :: "json \<Rightarrow> string" where
  "typeof v =
     (case v of
        JNull \<Rightarrow> ''object''
      | JBool b \<Rightarrow> ''boolean''
      | JNum n \<Rightarrow> ''number''
      | JStr s \<Rightarrow> ''string''
      | JArr xs \<Rightarrow> ''object''
      | JObj kvs \<Rightarrow> ''object'')"

fun join_with :: "string \<Rightarrow> string list \<Rightarrow> string" where
  "join_with sep [] = []"
| "join_with sep [x] = x"
| "join_with sep (x # y # ys) = x @ sep @ join_with sep (y # ys)"

text \<open>The string a value turns into inside a template literal or as a property key.\<close>

fun js_to_string :: "json \<Rightarrow> string" where
  "js_to_string JNull = ''null''"
| "js_to_string (JBool b) = (if b then ''true'' else ''false'')"
| "js_to_string (JNum n) = show_int n"
| "js_to_string (JStr s) = s"
| "js_to_string (JArr xs) =
     join_with '','' (map (\<lambda>x. if x = JNull then [] else js_to_string x) xs)"
| "js_to_string (JObj kvs) = ''[object Object]''"

text \<open>
  A lookup in an object literal also finds what every object inherits: the properties
  of \<^verbatim>\<open>Object.prototype\<close>.
\<close>

definition object_prototype_keys :: "string list" where
  "object_prototype_keys =
     [''constructor'', ''__defineGetter__'', ''__defineSetter__'', ''hasOwnProperty'',
      ''__lookupGetter__'', ''__lookupSetter__'', ''isPrototypeOf'', ''propertyIsEnumerable'',
      ''toString'', ''valueOf'', ''__proto__'', ''toLocaleString'']"

subsection \<open>The tool module\<close>

text \<open>
  \<^verbatim>\<open>ClaudeTool.#optionsSchema\<close>: the type and the allowed values of each known option.
\<close>

definition optionsSchema :: "string \<Rightarrow> (string \<times> string list option) option" where
  "optionsSchema key =
     (if key = ''dangerouslySkipPermissions'' then Some (''boolean'', None)
      else if key = ''verbose'' then Some (''boolean'', None)
      else if key = ''outputFormat'' then Some (''string'', Some [''stream-json'', ''json'', ''text''])
      else None)"

definition validate_option :: "string \<times> json \<Rightarrow> string list" where
  \<open>validate_option entry =
     (case entry of (key, v) \<Rightarrow>
        (case optionsSchema key of
           None \<Rightarrow>
             if key \<in> set object_prototype_keys
             then [''config.options.'' @ key @ '': Must be type "undefined", got "'' @ typeof v @ [CHR 0x22]]
             else [''config.options.'' @ key @ '': Unknown option'']
         | Some (ty, allowed) \<Rightarrow>
             if typeof v \<noteq> ty
             then [''config.options.'' @ key @ '': Must be type "'' @ ty @ ''", got "'' @ typeof v @ [CHR 0x22]]
             else
               (case allowed of
                  None \<Rightarrow> []
                | Some vs \<Rightarrow>
                    if js_to_string v \<in> set vs then []
                    else [''config.options.'' @ key @ '': Invalid value "'' @ js_to_string v @
                          ''". Allowed: '' @ join_with '', '' vs])))\<close>

text \<open>\<^verbatim>\<open>ClaudeTool.validate\<close>, on a configuration that is an object.\<close>

definition ClaudeTool_validate :: "json \<Rightarrow> bool \<times> string list" where
  \<open>ClaudeTool_validate config =
     (case js_prop config ''tool'' of
        Some (JStr t) \<Rightarrow>
          if t \<noteq> ''claude'' then
            (False, [''ClaudeTool.validate: Expected tool "claude", got "'' @ t @ [CHR 0x22]])
          else
            (case js_prop config ''options'' of
               None \<Rightarrow> (True, [])
             | Some (JObj entries) \<Rightarrow>
                 (let messages = concat (map validate_option entries)
                  in (messages = [], messages))
             | Some v \<Rightarrow> (False, [''config.options: Must be an object'']))
      | Some v \<Rightarrow>
          (False, [''ClaudeTool.validate: Expected tool "claude", got "'' @ js_to_string v @ [CHR 0x22]])
      | None \<Rightarrow> (False, [''ClaudeTool.validate: Expected tool "claude", got "undefined"'']))\<close>

definition validateSkipContext :: "json \<Rightarrow> bool \<times> string list" where
  \<open>validateSkipContext config =
     (case js_prop config ''skipContext'' of
        None \<Rightarrow> (True, [])
      | Some v \<Rightarrow>
          if typeof v \<noteq> ''boolean''
          then (False, [''config.skipContext: Must be type "boolean", got "'' @ typeof v @ [CHR 0x22]])
          else (True, []))\<close>

definition validateOutputSchema :: "json \<Rightarrow> bool \<times> string list" where
  \<open>validateOutputSchema schema =
     (if \<not> truthy schema then (True, [])
      else if typeof schema \<noteq> ''object'' then (False, [''outputSchema: Must be an object''])
      else
        (let m1 = (if truthy_opt (js_prop schema ''type'') \<and> js_prop schema ''type'' \<noteq> Some (JStr ''object'')
                   then [''outputSchema.type: Root type should be "object"''] else []);
             m2 = (case js_prop schema ''required'' of
                     Some (JArr xs) \<Rightarrow> []
                   | r \<Rightarrow> if truthy_opt r then [''outputSchema.required: Must be an array''] else []);
             m3 = (case js_prop schema ''properties'' of
                     None \<Rightarrow> []
                   | Some ps \<Rightarrow> if truthy ps \<and> typeof ps \<noteq> ''object''
                       then [''outputSchema.properties: Must be an object''] else []);
             messages = m1 @ m2 @ m3
         in (messages = [], messages)))\<close>

subsection \<open>The tool registry\<close>

text \<open>
  \<^verbatim>\<open>ToolRegistry.validateToolConfig\<close>. The registry is the object literal
  \<^verbatim>\<open>{ 'claude': ClaudeTool }\<close>: a name that is an inherited property is found too, and the
  call of its \<^verbatim>\<open>validate\<close> raises.
\<close>

definition hasTool :: "json \<Rightarrow> bool" where
  "hasTool toolName =
     (js_to_string toolName = ''claude'' \<or> js_to_string toolName \<in> set object_prototype_keys)"

definition validateToolConfig :: "json \<Rightarrow> js_error + bool \<times> string list" where
  \<open>validateToolConfig config =
     (case js_prop config ''tool'' of
        None \<Rightarrow> Inr (False, [''config.tool: Missing required field''])
      | Some toolName \<Rightarrow>
          if \<not> truthy toolName then Inr (False, [''config.tool: Missing required field''])
          else if \<not> hasTool toolName then
            Inr (False, [''config.tool: Unknown tool "'' @ js_to_string toolName @
                         ''". Available: '' @ join_with '', '' [''claude'']])
          else if js_to_string toolName \<in> set object_prototype_keys then Inl TypeError
          else Inr (ClaudeTool_validate config))\<close>

subsection \<open>The set configuration\<close>

definition item_messages :: "string \<Rightarrow> nat \<times> json \<Rightarrow> string list" where
  \<open>item_messages arrayName entry =
     (case entry of (index, item) \<Rightarrow>
        (case item of
           JObj kvs \<Rightarrow>
             if js_prop item ''tool'' = None
             then [''set.json.'' @ arrayName @ ''['' @ show_nat index @ '']: Missing required key "tool"'']
             else []
         | _ \<Rightarrow> [''set.json.'' @ arrayName @ ''['' @ show_nat index @ '']: Must be an object'']))\<close>

text \<open>\<^verbatim>\<open>UserConfig.#validateConfigArray\<close>.\<close>

definition validateConfigArray :: "json \<Rightarrow> string \<Rightarrow> bool \<times> string list" where
  "validateConfigArray array arrayName =
     (case array of
        JArr items \<Rightarrow>
          if length items = 0
          then (False, [''set.json.'' @ arrayName @ '': Array must contain at least one tool config''])
          else
            (let messages = concat (map (item_messages arrayName) (enumerate 0 items))
             in (messages = [], messages))
      | _ \<Rightarrow> (False, [''set.json.'' @ arrayName @ '': Must be an array'']))"

text \<open>
  \<^verbatim>\<open>UserConfig.#validateToolConfigs\<close>: one entry of the conversion list and one of the task
  list, then the two loops. An exception ends the loop it is raised in.
\<close>

definition prefixed :: "string \<Rightarrow> nat \<Rightarrow> bool \<times> string list \<Rightarrow> string list" where
  "prefixed phase index r =
     (if fst r then [] else map (\<lambda>msg. phase @ ''['' @ show_nat index @ ''].'' @ msg) (snd r))"

definition conversion_messages :: "nat \<times> json \<Rightarrow> js_error + string list" where
  "conversion_messages entry =
     (case entry of (index, config) \<Rightarrow>
        (case validateToolConfig config of
           Inl e \<Rightarrow> Inl e
         | Inr r \<Rightarrow>
             Inr (prefixed ''conversion'' index r @
                  (if truthy_opt (js_prop config ''outputSchema'') \<and>
                      js_prop config ''tool'' = Some (JStr ''claude'')
                   then (case js_prop config ''outputSchema'' of
                           Some schema \<Rightarrow> prefixed ''conversion'' index (validateOutputSchema schema)
                         | None \<Rightarrow> [])
                   else []))))"

definition task_messages :: "nat \<times> json \<Rightarrow> js_error + string list" where
  "task_messages entry =
     (case entry of (index, config) \<Rightarrow>
        (case validateToolConfig config of
           Inl e \<Rightarrow> Inl e
         | Inr r \<Rightarrow>
             Inr (prefixed ''task'' index r @
                  (if js_prop config ''tool'' = Some (JStr ''claude'')
                   then prefixed ''task'' index (validateSkipContext config) @
                        (case js_prop config ''outputSchema'' of
                           Some schema \<Rightarrow>
                             if truthy schema then prefixed ''task'' index (validateOutputSchema schema)
                             else []
                         | None \<Rightarrow> [])
                   else []))))"

fun collect :: "('a \<Rightarrow> js_error + string list) \<Rightarrow> 'a list \<Rightarrow> js_error + string list" where
  "collect f [] = Inr []"
| "collect f (x # xs) =
     (case f x of
        Inl e \<Rightarrow> Inl e
      | Inr ms \<Rightarrow> (case collect f xs of Inl e \<Rightarrow> Inl e | Inr rest \<Rightarrow> Inr (ms @ rest)))"

definition items_of :: "json option \<Rightarrow> json list" where
  "items_of v = (case v of Some (JArr items) \<Rightarrow> items | _ \<Rightarrow> [])"

definition validateToolConfigs :: "json \<Rightarrow> js_error + string list" where
  "validateToolConfigs setConfig =
     (case collect conversion_messages (enumerate 0 (items_of (js_prop setConfig ''conversion''))) of
        Inl e \<Rightarrow> Inl e
      | Inr cs \<Rightarrow>
          (case collect task_messages (enumerate 0 (items_of (js_prop setConfig ''task''))) of
             Inl e \<Rightarrow> Inl e
           | Inr ts \<Rightarrow> Inr (cs @ ts)))"

definition requiredKeys :: "string list" where
  "requiredKeys = [''name'', ''version'', ''conversion'', ''task'']"

definition missing_key_message :: "string \<Rightarrow> string" where
  \<open>missing_key_message key = ''set.json: Missing required key "'' @ key @ [CHR 0x22]\<close>

text \<open>
  \<^verbatim>\<open>UserConfig.validateSetConfig\<close>. On \<^verbatim>\<open>null\<close> the first read raises.
\<close>

definition validateSetConfig :: "json \<Rightarrow> js_error + bool \<times> string list" where
  "validateSetConfig setConfig =
     (if setConfig = JNull then Inl TypeError
      else
        (let messages = map missing_key_message
                          (filter (\<lambda>key. js_prop setConfig key = None) requiredKeys)
         in if 0 < length messages then Inr (False, messages)
            else
              (case (js_prop setConfig ''conversion'', js_prop setConfig ''task'') of
                 (Some conversion, Some task) \<Rightarrow>
                   (let c = validateConfigArray conversion ''conversion'';
                        t = validateConfigArray task ''task'';
                        messages2 = snd c @ snd t
                    in if \<not> fst c \<or> \<not> fst t then Inr (False, messages2)
                       else
                         (case validateToolConfigs setConfig of
                            Inl e \<Rightarrow> Inl e
                          | Inr toolMessages \<Rightarrow>
                              Inr (messages2 @ toolMessages = [], messages2 @ toolMessages)))
               | _ \<Rightarrow> Inr (False, messages))))"

text \<open>
  \<^verbatim>\<open>UserConfig.#migrateSetConfig\<close>: the flat legacy shape is rebuilt with both phase lists;
  a phase that is a single truthy value and no array is wrapped into a list.
\<close>

definition default_tool_options :: json where
  "default_tool_options =
     JObj [(''dangerouslySkipPermissions'', JBool True), (''verbose'', JBool True),
           (''outputFormat'', JStr ''stream-json'')]"

definition members :: "json \<Rightarrow> (string \<times> json) list" where
  "members v = (case v of JObj kvs \<Rightarrow> kvs | _ \<Rightarrow> [])"

definition is_array :: "json option \<Rightarrow> bool" where
  "is_array v = (case v of Some (JArr xs) \<Rightarrow> True | _ \<Rightarrow> False)"

definition wrap_phase :: "string \<Rightarrow> json \<times> bool \<Rightarrow> json \<times> bool" where
  "wrap_phase phase cm =
     (case cm of (setConfig, migrated) \<Rightarrow>
        (case js_prop setConfig phase of
           None \<Rightarrow> (setConfig, migrated)
         | Some v \<Rightarrow>
             if truthy v \<and> \<not> is_array (Some v)
             then (JObj (obj_put phase (JArr [v]) (members setConfig)), True)
             else (setConfig, migrated)))"

definition migrateSetConfig :: "json \<Rightarrow> js_error + json \<times> bool" where
  "migrateSetConfig setConfig =
     (if setConfig = JNull then Inl TypeError
      else
        (case js_opt_prop (js_prop setConfig ''options'') ''skipTaskContext'' of
           Some skip \<Rightarrow>
             if \<not> truthy_opt (js_prop setConfig ''task'') then
               Inr (JObj (obj_put ''task''
                            (JArr [JObj [(''tool'', JStr ''claude''), (''options'', default_tool_options),
                                         (''skipContext'', skip)]])
                            (obj_put ''conversion''
                               (JArr [JObj [(''tool'', JStr ''claude''), (''options'', default_tool_options)]])
                               (members setConfig))),
                    True)
             else Inr (wrap_phase ''task'' (wrap_phase ''conversion'' (setConfig, False)))
         | None \<Rightarrow> Inr (wrap_phase ''task'' (wrap_phase ''conversion'' (setConfig, False)))))"

text \<open>
  The configuration directory: the given path when it is truthy, \<^verbatim>\<open>~/.ralph\<close> otherwise.
\<close>

definition configDir :: "host \<Rightarrow> string option \<Rightarrow> string" where
  "configDir h cfgPath =
     (case cfgPath of
        Some p \<Rightarrow> if p \<noteq> [] then p else path_join h [homedir h, ''.ralph'']
      | None \<Rightarrow> path_join h [homedir h, ''.ralph''])"

definition setJsonPath :: "host \<Rightarrow> string option \<Rightarrow> string \<Rightarrow> string" where
  "setJsonPath h cfgPath setName = path_join h [configDir h cfgPath, ''sets'', setName, ''set.json'']"

text \<open>
  \<^verbatim>\<open>UserConfig.loadSetConfig\<close>. Whatever is raised inside the \<^verbatim>\<open>try\<close> block, the error of
  a failed validation included, is caught and raised again inside a second message.
\<close>

definition validation_failed :: "host \<Rightarrow> string \<Rightarrow> string list \<Rightarrow> string" where
  "validation_failed h path messages =
     ''Set config validation failed: '' @ path @ [CHR 0x0A] @
     ''Errors:'' @ [CHR 0x0A] @ ''  - '' @ join_with ([CHR 0x0A] @ ''  - '') messages @ [CHR 0x0A] @
     ''Expected structure:'' @ [CHR 0x0A] @ expectedStructure h"

definition not_found_or_invalid :: "host \<Rightarrow> string \<Rightarrow> string \<Rightarrow> string" where
  "not_found_or_invalid h path message =
     ''Set config not found or invalid: '' @ path @ [CHR 0x0A] @
     ''Error: '' @ message @ [CHR 0x0A] @
     ''Expected structure:'' @ [CHR 0x0A] @ expectedStructure h @ [CHR 0x0A] @
     ''Copy examples/.ralph/ to ~/.ralph/''"

definition message_of :: "host \<Rightarrow> js_error \<Rightarrow> string" where
  "message_of h e = (case e of TypeError \<Rightarrow> type_error h | Error m \<Rightarrow> m)"

definition loadSetConfig :: "host \<Rightarrow> string option \<Rightarrow> string \<Rightarrow> js_error + json" where
  "loadSetConfig h cfgPath setName =
     (let path = setJsonPath h cfgPath setName;
          tried =
            (case readFile h path of
               Inl m \<Rightarrow> Inl (Error m)
             | Inr content \<Rightarrow>
                 (case parse h content of
                    None \<Rightarrow> Inl (Error (parse_error h content))
                  | Some rawConfig \<Rightarrow>
                      (case migrateSetConfig rawConfig of
                         Inl e \<Rightarrow> Inl e
                       | Inr (setConfig, migrated) \<Rightarrow>
                           (case validateSetConfig setConfig of
                              Inl e \<Rightarrow> Inl e
                            | Inr (valid, messages) \<Rightarrow>
                                if \<not> valid then Inl (Error (validation_failed h path messages))
                                else Inr setConfig))))
      in case tried of
           Inl err \<Rightarrow> Inl (Error (not_found_or_invalid h path (message_of h err)))
         | Inr setConfig \<Rightarrow> Inr setConfig)"

section \<open>The state store\<close>

text \<open>
  The state directory of a work item and what the run leaves behind in it. A document
  is \<open>None\<close> when its file is missing or does not parse. Beside the four files the record
  keeps what the files do not show: the adapter invocations (phase and task id), the
  number of \<^verbatim>\<open>saveState\<close> calls, and the messages of \<^verbatim>\<open>Print.fail\<close>. Writing a file succeeds.
\<close>

record log_entry =
  log_taskId :: string
  log_phase :: string
  log_error :: "string option"
  log_output :: "string option"

record world =
  dirExists :: bool
  prdFile :: "prd option"
  progressFile :: "progress option"
  taskLog :: "log_entry list"
  errorLog :: "(string \<times> string) list"
  invocations :: "(string \<times> string option) list"
  saves :: nat
  failures :: "string list"

text \<open>
  \<^verbatim>\<open>RalphLoop.checkExistingProject\<close>: the reads stop at the first one that fails, so a
  progress record is only seen behind a work item that parsed.
\<close>

definition checkExistingProject :: "world \<Rightarrow> bool \<times> prd option \<times> progress option" where
  "checkExistingProject w =
     (if \<not> dirExists w then (False, None, None)
      else
        (case prdFile w of
           None \<Rightarrow> (True, None, None)
         | Some p \<Rightarrow> (True, Some p, progressFile w)))"

definition saveState :: "world \<Rightarrow> prd \<Rightarrow> progress \<Rightarrow> world" where
  "saveState w p g =
     w\<lparr>dirExists := True, prdFile := Some p, progressFile := Some g, saves := Suc (saves w)\<rparr>"

definition saveError :: "world \<Rightarrow> string \<Rightarrow> string \<Rightarrow> world" where
  "saveError w taskId message = w\<lparr>errorLog := errorLog w @ [(taskId, message)]\<rparr>"

definition saveTaskLog :: "world \<Rightarrow> string \<Rightarrow> string \<Rightarrow> claude_result \<Rightarrow> world" where
  "saveTaskLog w taskId phase r =
     w\<lparr>taskLog := taskLog w @
        [\<lparr>log_taskId = taskId, log_phase = phase, log_error = cr_error r, log_output = cr_output r\<rparr>]\<rparr>"

definition print_fail :: "world \<Rightarrow> string \<Rightarrow> world" where
  "print_fail w message = w\<lparr>failures := failures w @ [message]\<rparr>"

section \<open>The execution engine\<close>

text \<open>
  What surrounds one run: the path of the requirements file, the working directory, the
  text of the file (\<open>None\<close> when it cannot be read), the id its file name carries, the repositories found in the working directory,
  the verdict of \<^verbatim>\<open>validatePaths\<close> (which probes the file system) on a work item, and the
  agent: how the process behaves at the conversion, and at the invocation for a task,
  given how many invocations this run made before.
\<close>

record surroundings =
  prdPath :: string
  workDir :: string
  prdSource :: "string option"
  fileNamePrdId :: "string option"
  repos :: "json list"
  validatePaths :: "json \<Rightarrow> bool \<times> string list"
  conversion :: proc
  agent :: "nat \<Rightarrow> subtask \<Rightarrow> proc"

text \<open>
  \<^verbatim>\<open>RalphLoop.loadTemplate\<close> and \<^verbatim>\<open>RalphLoop.loadSystemPromptPath\<close>: a file is there when it
  can be read.
\<close>

definition loadTemplate :: "host \<Rightarrow> string \<Rightarrow> string option \<Rightarrow> string \<Rightarrow> js_error + string" where
  "loadTemplate h templateName cfgPath setName =
     (let templatePath =
            path_join h [configDir h cfgPath, ''sets'', setName, templateName @ ''.prompt.md'']
      in case readFile h templatePath of
           Inl m \<Rightarrow> Inl (Error (''Template not found: '' @ templatePath))
         | Inr template \<Rightarrow> Inr template)"

definition loadSystemPromptPath :: "host \<Rightarrow> string option \<Rightarrow> string \<Rightarrow> js_error + string option" where
  "loadSystemPromptPath h cfgPath setName =
     (case loadSetConfig h cfgPath setName of
        Inl e \<Rightarrow> Inl e
      | Inr setConfig \<Rightarrow>
          (case js_prop setConfig ''systemPrompt'' of
             None \<Rightarrow> Inr None
           | Some f \<Rightarrow>
               if \<not> truthy f then Inr None
               else
                 (case f of
                    JStr systemPromptFile \<Rightarrow>
                      (let systemPromptPath =
                             path_join h [configDir h cfgPath, ''sets'', setName, systemPromptFile]
                       in case readFile h systemPromptPath of
                            Inl m \<Rightarrow> Inl (Error (''System prompt not found: '' @ systemPromptPath))
                          | Inr content \<Rightarrow> Inr (Some systemPromptPath))
                  | _ \<Rightarrow> Inl TypeError)))"

text \<open>
  What \<^verbatim>\<open>executeTask\<close> does before the invocation: the template, the set configuration and
  the system prompt are loaded, in this order; each can raise. The prompt they make goes
  to the agent and is not modelled.
\<close>

definition preflight :: "host \<Rightarrow> string \<Rightarrow> string option \<Rightarrow> string \<Rightarrow> js_error option" where
  "preflight h templateName cfgPath setName =
     (case loadTemplate h templateName cfgPath setName of
        Inl e \<Rightarrow> Some e
      | Inr template \<Rightarrow>
          (case loadSetConfig h cfgPath setName of
             Inl e \<Rightarrow> Some e
           | Inr setConfig \<Rightarrow>
               (case loadSystemPromptPath h cfgPath setName of
                  Inl e \<Rightarrow> Some e
                | Inr systemPromptPath \<Rightarrow> None)))"

record task_outcome =
  success :: bool
  updatedTask :: "json option"
  exitCode :: exit_code

text \<open>
  The end of \<^verbatim>\<open>executeTask\<close>, from the security check on: what the result object says.
  A result that is \<^verbatim>\<open>null\<close> raises at the first read.
\<close>

definition judge :: "json \<Rightarrow> js_error + task_outcome" where
  "judge updated =
     (if updated = JNull then Inl TypeError
      else
        (let securityCheck =
               (case js_prop updated ''securityCheck'' of
                  None \<Rightarrow> JObj [(''passed'', JBool True), (''issues'', JArr [])]
                | Some v \<Rightarrow>
                    if truthy v then v else JObj [(''passed'', JBool True), (''issues'', JArr [])])
         in if \<not> truthy_opt (js_prop securityCheck ''passed'') then
              Inr \<lparr>success = False, updatedTask = Some updated, exitCode = TASK_FAILED\<rparr>
            else if truthy_opt (js_prop updated ''passes'') then
              Inr \<lparr>success = True, updatedTask = Some updated, exitCode = SUCCESS\<rparr>
            else if js_prop updated ''status'' = Some (JStr ''blocked'') then
              Inr \<lparr>success = False, updatedTask = Some updated, exitCode = TASK_BLOCKED\<rparr>
            else
              Inr \<lparr>success = False, updatedTask = Some updated, exitCode = TASK_FAILED\<rparr>))"

text \<open>A value that is there and truthy: what \<^verbatim>\<open>if( v )\<close> lets through.\<close>

definition usable :: "json option \<Rightarrow> json option" where
  "usable v = (case v of None \<Rightarrow> None | Some u \<Rightarrow> if truthy u then Some u else None)"

text \<open>
  \<^verbatim>\<open>executeTask\<close> after the invocation returned: the log entry, the context-compaction
  test, then the structured result if there is one, the transport error if there is one,
  the extraction from the output otherwise.
\<close>

definition after_call ::
  "host \<Rightarrow> string \<Rightarrow> claude_result \<Rightarrow> world \<Rightarrow> (js_error + task_outcome) \<times> world" where
  "after_call h taskId r w =
     (let w1 = saveTaskLog w taskId ''task'' r
      in if truthy_opt (contextManagement r) then
           (Inr \<lparr>success = False, updatedTask = None, exitCode = TASK_FAILED\<rparr>, w1)
         else
           (case usable (structuredOutput r) of
              Some updated \<Rightarrow> (judge updated, w1)
            | None \<Rightarrow>
                (case cr_error r of
                   Some message \<Rightarrow>
                     (Inr \<lparr>success = False, updatedTask = None, exitCode = CLAUDE_ERROR\<rparr>,
                      saveError w1 taskId message)
                 | None \<Rightarrow>
                     (case cr_output r of
                        None \<Rightarrow> (Inl TypeError, w1)
                      | Some text \<Rightarrow>
                          (case extractJson (parse h) text of
                             Inl e \<Rightarrow> (Inl e, w1)
                           | Inr ParseError \<Rightarrow>
                               (Inr \<lparr>success = False, updatedTask = None, exitCode = SCHEMA_INVALID\<rparr>,
                                saveError w1 taskId (''JSON parse error: '' @ take 200 text))
                           | Inr (Parsed updated) \<Rightarrow> (judge updated, w1))))))"

text \<open>\<^verbatim>\<open>RalphLoop.executeTask\<close>.\<close>

definition executeTask ::
  "host \<Rightarrow> surroundings \<Rightarrow> subtask \<Rightarrow> string option \<Rightarrow> string \<Rightarrow> world \<Rightarrow>
     (js_error + task_outcome) \<times> world" where
  "executeTask h env task cfgPath setName w =
     (case preflight h ''executor'' cfgPath setName of
        Some e \<Rightarrow> (Inl e, w)
      | None \<Rightarrow>
          (let p = agent env (length (invocations w)) task;
               w1 = w\<lparr>invocations := invocations w @ [(''task'', Some (story_id task))]\<rparr>
           in case callClaude (parse h) False (Some ''task'') p of
                Inl e \<Rightarrow> (Inl e, w1)
              | Inr r \<Rightarrow> after_call h (story_id task) r w1))"

subsection \<open>From a result object to a document\<close>

text \<open>
  The engine stores the agent's result object as the user story it stands for, and the
  converted object as the work item. The documents are typed here, so a stored object is
  read at the type of the document: its id and status strings, its dependencies a list
  of strings, its commits a list (none when the member is absent or falsy). An object
  that is no such document has no reading (\<open>None\<close>); the run then ends with \<open>Untyped\<close>,
  which stands for no behaviour of the engine.
\<close>

definition string_of :: "json \<Rightarrow> string option" where
  "string_of v = (case v of JStr s \<Rightarrow> Some s | _ \<Rightarrow> None)"

definition list_of :: "json option \<Rightarrow> json list option" where
  "list_of v =
     (case v of
        None \<Rightarrow> Some []
      | Some (JArr xs) \<Rightarrow> Some xs
      | Some u \<Rightarrow> if truthy u then None else Some [])"

definition subtask_of_json :: "json \<Rightarrow> subtask option" where
  "subtask_of_json j =
     (case (js_prop j ''id'', js_prop j ''status'', js_prop j ''dependencies'') of
        (Some (JStr i), Some (JStr s), Some (JArr ds)) \<Rightarrow>
          (case (those (map string_of ds), list_of (js_prop j ''commits'')) of
             (Some deps, Some cs) \<Rightarrow>
               Some \<lparr>story_id = i, story_status = s, dependencies = deps, story_commits = cs\<rparr>
           | _ \<Rightarrow> None)
      | _ \<Rightarrow> None)"

definition prd_of_json :: "json \<Rightarrow> prd option" where
  "prd_of_json j =
     (case (js_prop j ''id'', js_prop j ''userStories'', js_prop j ''targetDirs'') of
        (Some (JStr i), Some (JArr stories), Some (JArr dirs)) \<Rightarrow>
          (case those (map subtask_of_json stories) of
             None \<Rightarrow> None
           | Some ss \<Rightarrow>
               Some \<lparr>prd_id = i,
                     prd_prdId = (case js_prop j ''prdId'' of Some (JStr q) \<Rightarrow> Some q | _ \<Rightarrow> None),
                     targetDirs = dirs,
                     userStories = ss\<rparr>)
      | _ \<Rightarrow> None)"

subsection \<open>Initialisation\<close>

text \<open>\<^verbatim>\<open>v.length\<close> of a value that is not \<^verbatim>\<open>null\<close>.\<close>

definition js_length :: "json \<Rightarrow> json option" where
  "js_length v =
     (case v of
        JArr xs \<Rightarrow> Some (JNum (int (length xs)))
      | JStr s \<Rightarrow> Some (JNum (int (length s)))
      | JObj kvs \<Rightarrow> map_of kvs ''length''
      | _ \<Rightarrow> None)"

datatype init_result = InitOk prd progress | InitFailed exit_code | InitUntyped

text \<open>The progress record that \<^verbatim>\<open>init\<close> creates for a work item.\<close>

definition new_progress :: "host \<Rightarrow> prd \<Rightarrow> string option \<Rightarrow> string \<Rightarrow> progress" where
  "new_progress h p cfgPath setName =
     \<lparr>prdId = prd_id p, startedAt = now h, completedAt = None, completedTasks = [],
      currentTask = None, status = ''initialized'', totalTasks = length (userStories p),
      lastError = None, summary = None, templateSet = Some setName, configPath = cfgPath\<rparr>"

text \<open>
  \<^verbatim>\<open>RalphLoop.init\<close> from the converted object on: the context-compaction test, the id, the
  constraint flag, the target directories, the path validation, then the progress record
  with no completed task, saved together with the work item. A converted value that is no
  object raises at the write of its id, in strict mode; an array is no work item.
\<close>

definition finish_init ::
  "host \<Rightarrow> surroundings \<Rightarrow> string option \<Rightarrow> string \<Rightarrow> claude_result \<Rightarrow> json \<Rightarrow> world \<Rightarrow>
     (js_error + init_result) \<times> world" where
  "finish_init h env cfgPath setName r converted w =
     (if truthy_opt (contextManagement r) then
        (Inr (InitFailed TASK_FAILED),
         print_fail w ''Context was compacted - task too large. Consider splitting into smaller tasks.'')
      else
        (case converted of
           JArr xs \<Rightarrow> (Inr InitUntyped, w)
         | JObj kvs0 \<Rightarrow>
             (let kvs1 =
                    (if truthy_opt (map_of kvs0 ''prdId'') then kvs0
                     else
                       (case fileNamePrdId env of
                          Some i \<Rightarrow> obj_put ''prdId'' (JStr i) kvs0
                        | None \<Rightarrow>
                            (case map_of kvs0 ''id'' of
                               Some i \<Rightarrow> obj_put ''prdId'' i kvs0
                             | None \<Rightarrow> kvs0)))
              in if map_of kvs1 ''constraintsValid'' = Some (JBool False) then
                   (Inr (InitFailed SCHEMA_INVALID), print_fail w ''PRD violates constraints:'')
                 else
                   (let kvs2 =
                          (case map_of kvs1 ''targetDirs'' of
                             None \<Rightarrow> obj_put ''targetDirs'' (JArr (repos env)) kvs1
                           | Some t \<Rightarrow>
                               if \<not> truthy t \<or> js_length t = Some (JNum 0)
                               then obj_put ''targetDirs'' (JArr (repos env)) kvs1
                               else kvs1);
                        kvs3 = obj_put ''workingDir'' (JStr (workDir env)) kvs2;
                        verdict = validatePaths env (JObj kvs3)
                    in if \<not> fst verdict then
                         (Inr (InitFailed SCHEMA_INVALID), foldl print_fail w (snd verdict))
                       else
                         (case prd_of_json (JObj kvs3) of
                            None \<Rightarrow> (Inr InitUntyped, w)
                          | Some p \<Rightarrow>
                              (Inr (InitOk p (new_progress h p cfgPath setName)),
                               saveState w p (new_progress h p cfgPath setName)))))
         | _ \<Rightarrow> (Inl TypeError, w)))"

text \<open>\<^verbatim>\<open>RalphLoop.init\<close>.\<close>

definition init ::
  "host \<Rightarrow> surroundings \<Rightarrow> string option \<Rightarrow> string \<Rightarrow> world \<Rightarrow> (js_error + init_result) \<times> world" where
  "init h env cfgPath setName w =
     (case prdSource env of
        None \<Rightarrow>
          (Inr (InitFailed FILE_NOT_FOUND), print_fail w (''Could not read PRD file: '' @ prdPath env))
      | Some prdContent \<Rightarrow>
          (case preflight h ''converter'' cfgPath setName of
             Some e \<Rightarrow> (Inl e, w)
           | None \<Rightarrow>
               (let w1 = w\<lparr>dirExists := True,
                            invocations := invocations w @ [(''conversion'', None)]\<rparr>
                in case callClaude (parse h) False (Some ''conversion'') (conversion env) of
                     Inl e \<Rightarrow> (Inl e, w1)
                   | Inr r \<Rightarrow>
                       (let w2 = saveTaskLog w1 ''conversion'' ''conversion'' r
                        in case usable (structuredOutput r) of
                             Some converted \<Rightarrow> finish_init h env cfgPath setName r converted w2
                           | None \<Rightarrow>
                               (case cr_error r of
                                  Some message \<Rightarrow> (Inr (InitFailed CLAUDE_ERROR), w2)
                                | None \<Rightarrow>
                                    (case cr_output r of
                                       None \<Rightarrow> (Inl TypeError, w2)
                                     | Some text \<Rightarrow>
                                         (case extractJson (parse h) text of
                                            Inl e \<Rightarrow> (Inl e, w2)
                                          | Inr ParseError \<Rightarrow> (Inr (InitFailed SCHEMA_INVALID), w2)
                                          | Inr (Parsed converted) \<Rightarrow>
                                              finish_init h env cfgPath setName r converted w2)))))))"

subsection \<open>The run loop\<close>

text \<open>\<^verbatim>\<open>Array.prototype.findIndex\<close>, \<open>None\<close> for \<^verbatim>\<open>-1\<close>.\<close>

fun findIndex :: "('a \<Rightarrow> bool) \<Rightarrow> 'a list \<Rightarrow> nat option" where
  "findIndex P [] = None"
| "findIndex P (x # xs) = (if P x then Some 0 else map_option Suc (findIndex P xs))"

datatype run_result = Exit exit_code | Raised js_error | Untyped | Unfinished

record loop_state =
  ls_prd :: prd
  ls_progress :: progress
  ls_world :: world

datatype step = Next loop_state | Stop run_result loop_state

text \<open>
  The branch of the loop for no next task: the run is done when every story has the
  status \<^verbatim>\<open>completed\<close> or its id among the completed tasks, and blocked otherwise. The state
  is saved and the loop ends; the exit code stays the one the loop started with.
\<close>

definition allDone :: "prd \<Rightarrow> progress \<Rightarrow> bool" where
  "allDone p g =
     list_all (\<lambda>s. story_status s = ''completed'' \<or> story_id s \<in> set (completedTasks g))
       (userStories p)"

definition no_next_task :: "host \<Rightarrow> loop_state \<Rightarrow> loop_state" where
  "no_next_task h st =
     (let p = ls_prd st; g = ls_progress st;
          g1 =
            (if allDone p g then
               g\<lparr>status := ''completed'', completedAt := Some (now h),
                 summary := Some (''All '' @ show_nat (totalTasks g) @ '' tasks completed. '' @
                                  show_nat (length (concat (map story_commits (userStories p)))) @
                                  '' commits across '' @ show_nat (length (targetDirs p)) @ '' repos.'')\<rparr>
             else g\<lparr>status := ''blocked''\<rparr>)
      in \<lparr>ls_prd = p, ls_progress = g1, ls_world = saveState (ls_world st) p g1\<rparr>)"

text \<open>
  \<^verbatim>\<open>prd.userStories[ taskIndex ] = updatedTask\<close>, for a truthy result object.
\<close>

definition store_result :: "prd \<Rightarrow> nat option \<Rightarrow> json option \<Rightarrow> prd option" where
  "store_result p taskIndex updated =
     (case usable updated of
        None \<Rightarrow> Some p
      | Some u \<Rightarrow>
          (case subtask_of_json u of
             None \<Rightarrow> None
           | Some t \<Rightarrow>
               (case taskIndex of
                  None \<Rightarrow> Some p
                | Some i \<Rightarrow> Some (p\<lparr>userStories := (userStories p)[i := t]\<rparr>))))"

definition error_message :: "json option \<Rightarrow> json" where
  "error_message updated =
     (case js_opt_prop updated ''notes'' of
        None \<Rightarrow> JStr ''Task failed''
      | Some n \<Rightarrow> if truthy n then n else JStr ''Task failed'')"

text \<open>One turn of the \<^verbatim>\<open>while\<close> loop of \<^verbatim>\<open>RalphLoop.run\<close>.\<close>

definition loop_iteration ::
  "host \<Rightarrow> surroundings \<Rightarrow> string option \<Rightarrow> string \<Rightarrow> loop_state \<Rightarrow> step" where
  "loop_iteration h env cfgPath setName st =
     (let p = ls_prd st; g = ls_progress st
      in case findNextTask (userStories p) (completedTasks g) of
           None \<Rightarrow> Stop (Exit SUCCESS) (no_next_task h st)
         | Some nextTask \<Rightarrow>
             (let taskIndex = findIndex (\<lambda>s. story_id s = story_id nextTask) (userStories p);
                  g1 = g\<lparr>currentTask := Some (story_id nextTask)\<rparr>;
                  w1 = saveState (ls_world st) p g1
              in case executeTask h env nextTask cfgPath setName w1 of
                   (Inl e, w2) \<Rightarrow> Stop (Raised e) \<lparr>ls_prd = p, ls_progress = g1, ls_world = w2\<rparr>
                 | (Inr outcome, w2) \<Rightarrow>
                     (case store_result p taskIndex (updatedTask outcome) of
                        None \<Rightarrow> Stop Untyped \<lparr>ls_prd = p, ls_progress = g1, ls_world = w2\<rparr>
                      | Some p1 \<Rightarrow>
                          if success outcome then
                            (let g2 = g1\<lparr>completedTasks := completedTasks g1 @ [story_id nextTask],
                                         currentTask := None\<rparr>
                             in Next \<lparr>ls_prd = p1, ls_progress = g2, ls_world = saveState w2 p1 g2\<rparr>)
                          else
                            (let g2 = g1\<lparr>currentTask := None,
                                         status := (if exitCode outcome = TASK_BLOCKED
                                                    then ''blocked'' else ''paused''),
                                         lastError :=
                                           Some \<lparr>err_taskId = story_id nextTask,
                                                 err_message = error_message (updatedTask outcome),
                                                 err_timestamp = now h\<rparr>\<rparr>
                             in Stop (Exit (exitCode outcome))
                                  \<lparr>ls_prd = p1, ls_progress = g2, ls_world = saveState w2 p1 g2\<rparr>))))"

text \<open>
  The loop. Nothing bounds the number of its turns (an agent that answers every
  invocation with a passing story under a new id keeps it going), so it runs on fuel:
  \<open>Unfinished\<close> is a loop that is still running when the fuel is used up.
\<close>

fun run_loop ::
  "host \<Rightarrow> surroundings \<Rightarrow> string option \<Rightarrow> string \<Rightarrow> nat \<Rightarrow> loop_state \<Rightarrow> run_result \<times> loop_state" where
  "run_loop h env cfgPath setName 0 st = (Unfinished, st)"
| "run_loop h env cfgPath setName (Suc n) st =
     (case loop_iteration h env cfgPath setName st of
        Next st' \<Rightarrow> run_loop h env cfgPath setName n st'
      | Stop r st' \<Rightarrow> (r, st'))"

subsection \<open>The run\<close>

record run_args =
  dryRun :: bool
  arg_configPath :: "string option"
  arg_templateSet :: string

text \<open>
  \<^verbatim>\<open>RalphLoop.run\<close> from the dry-run test on: the status \<^verbatim>\<open>running\<close> is saved, the loop runs,
  and a run that ends with another exit code than success reports where it stopped.
\<close>

definition stopped_at :: "progress \<Rightarrow> string" where
  "stopped_at g =
     ''Stopped at: '' @
     (case lastError g of
        None \<Rightarrow> ''unknown''
      | Some e \<Rightarrow> if err_taskId e \<noteq> [] then err_taskId e else ''unknown'')"

definition proceed ::
  "host \<Rightarrow> surroundings \<Rightarrow> nat \<Rightarrow> bool \<Rightarrow> string option \<Rightarrow> string \<Rightarrow> prd \<Rightarrow> progress \<Rightarrow> world \<Rightarrow>
     run_result \<times> world" where
  "proceed h env fuel dry cfgPath setName p g w =
     (if dry then (Exit SUCCESS, w)
      else
        (let g1 = g\<lparr>status := ''running''\<rparr>;
             w1 = saveState w p g1
         in case run_loop h env cfgPath setName fuel \<lparr>ls_prd = p, ls_progress = g1, ls_world = w1\<rparr> of
              (Exit code, st) \<Rightarrow>
                (Exit code,
                 if code \<noteq> SUCCESS then print_fail (ls_world st) (stopped_at (ls_progress st))
                 else ls_world st)
            | (r, st) \<Rightarrow> (r, ls_world st)))"

text \<open>
  \<^verbatim>\<open>RalphLoop.run\<close>. A project exists when its directory, its work item and its progress
  record are all there. For an existing project with a pinned (truthy) template set, a
  request for another set than \<^verbatim>\<open>default\<close> and the pinned one is refused first; then a
  completed project returns at once. Without an existing project the work item is
  initialised.
\<close>

definition run :: "host \<Rightarrow> surroundings \<Rightarrow> nat \<Rightarrow> run_args \<Rightarrow> world \<Rightarrow> run_result \<times> world" where
  "run h env fuel args w =
     (case checkExistingProject w of
        (True, Some p, Some g) \<Rightarrow>
          if truthy_str (templateSet g) \<and> arg_templateSet args \<noteq> ''default'' \<and>
             Some (arg_templateSet args) \<noteq> templateSet g
          then (Exit INVALID_ARGS, print_fail w ''Cannot change template set for existing project.'')
          else
            (let activeTemplateSet =
                   (case templateSet g of
                      Some pinned \<Rightarrow> if pinned \<noteq> [] then pinned else arg_templateSet args
                    | None \<Rightarrow> arg_templateSet args);
                 activeConfigPath =
                   (if truthy_str (templateSet g) \<and> truthy_str (configPath g)
                    then configPath g else arg_configPath args)
             in if status g = ''completed'' then (Exit SUCCESS, w)
                else proceed h env fuel (dryRun args) activeConfigPath activeTemplateSet p g w)
      | _ \<Rightarrow>
          (case init h env (arg_configPath args) (arg_templateSet args) w of
             (Inl e, w1) \<Rightarrow> (Raised e, w1)
           | (Inr (InitFailed code), w1) \<Rightarrow> (Exit code, w1)
           | (Inr InitUntyped, w1) \<Rightarrow> (Untyped, w1)
           | (Inr (InitOk p g), w1) \<Rightarrow>
               proceed h env fuel (dryRun args) (arg_configPath args) (arg_templateSet args) p g w1))"

subsection \<open>The states of a run\<close>

text \<open>
  The states the loop passes through, from a state it starts in: after any number of
  turns, the state a turn ends the loop in included. The flag says whether every turn so
  far left the ids of the user stories as they were, in their order.
\<close>

definition story_ids :: "loop_state \<Rightarrow> string list" where
  "story_ids st = map story_id (userStories (ls_prd st))"

inductive reaches ::
  "host \<Rightarrow> surroundings \<Rightarrow> string option \<Rightarrow> string \<Rightarrow> loop_state \<Rightarrow> bool \<Rightarrow> loop_state \<Rightarrow> bool"
  for h env cfgPath setName st0
where
  start: "reaches h env cfgPath setName st0 True st0"
| turn: "reaches h env cfgPath setName st0 kept st1 \<Longrightarrow>
         loop_iteration h env cfgPath setName st1 = Next st2 \<Longrightarrow>
         reaches h env cfgPath setName st0 (kept \<and> story_ids st2 = story_ids st1) st2"
| final: "reaches h env cfgPath setName st0 kept st1 \<Longrightarrow>
          loop_iteration h env cfgPath setName st1 = Stop r st2 \<Longrightarrow>
          reaches h env cfgPath setName st0 (kept \<and> story_ids st2 = story_ids st1) st2"

section \<open>A reader of JSON texts\<close>

text \<open>
  The theorems below hold for every \<open>parse\<close>. To run the extraction on a concrete text, a
  reader of the JSON grammar stands in for \<^verbatim>\<open>JSON.parse\<close>: tokens first, then values.
  It reads integer numbers and the two-character escapes; on a text with a fraction, an
  exponent or a four-digit escape it answers \<open>None\<close>, so it is applied to no such text.
\<close>

datatype token =
    TLBrace | TRBrace | TLBrack | TRBrack | TColon | TComma
  | TString string | TNumber int | TTrue | TFalse | TNull

definition unescape :: "char \<Rightarrow> char option" where
  "unescape e =
     (if e = CHR 0x22 then Some (CHR 0x22)
      else if e = CHR 0x5C then Some (CHR 0x5C)
      else if e = CHR ''/'' then Some (CHR ''/'')
      else if e = CHR ''b'' then Some (CHR 0x08)
      else if e = CHR ''f'' then Some (CHR 0x0C)
      else if e = CHR ''n'' then Some (CHR 0x0A)
      else if e = CHR ''r'' then Some (CHR 0x0D)
      else if e = CHR ''t'' then Some (CHR 0x09)
      else None)"

text \<open>After the opening quote: the characters of the string and the text after the closing quote.\<close>

fun lex_string :: "string \<Rightarrow> (string \<times> string) option" where
  "lex_string [] = None"
| "lex_string [c] = (if c = CHR 0x22 then Some ([], []) else None)"
| "lex_string (c # e # cs) =
     (if c = CHR 0x22 then Some ([], e # cs)
      else if c = CHR 0x5C then
        (case unescape e of
           None \<Rightarrow> None
         | Some ch \<Rightarrow> map_option (\<lambda>(str, rest). (ch # str, rest)) (lex_string cs))
      else if of_char c < (0x20 :: nat) then None
      else map_option (\<lambda>(str, rest). (c # str, rest)) (lex_string (e # cs)))"

definition is_digit :: "char \<Rightarrow> bool" where
  "is_digit c = (of_char CHR ''0'' \<le> (of_char c :: nat) \<and> (of_char c :: nat) \<le> of_char CHR ''9'')"

definition digit_value :: "char \<Rightarrow> nat" where
  "digit_value c = of_char c - of_char CHR ''0''"

definition digits_value :: "string \<Rightarrow> nat" where
  "digits_value ds = foldl (\<lambda>acc d. 10 * acc + digit_value d) 0 ds"

text \<open>An integer literal without its sign: no leading zero, nothing of a fraction or exponent after it.\<close>

definition lex_digits :: "string \<Rightarrow> (nat \<times> string) option" where
  "lex_digits s =
     (let ds = takeWhile is_digit s; rest = dropWhile is_digit s
      in if ds = [] then None
         else if 1 < length ds \<and> hd ds = CHR ''0'' then None
         else if rest \<noteq> [] \<and> hd rest \<in> {CHR ''.'', CHR ''e'', CHR ''E''} then None
         else Some (digits_value ds, rest))"

definition json_blank :: "char \<Rightarrow> bool" where
  "json_blank c = (c \<in> {CHR 0x20, CHR 0x09, CHR 0x0A, CHR 0x0D})"

fun lex :: "nat \<Rightarrow> string \<Rightarrow> token list option" where
  "lex 0 s = None"
| "lex (Suc n) [] = Some []"
| "lex (Suc n) (c # cs) =
     (if json_blank c then lex n cs
      else if c = CHR ''{'' then map_option ((#) TLBrace) (lex n cs)
      else if c = CHR ''}'' then map_option ((#) TRBrace) (lex n cs)
      else if c = CHR ''['' then map_option ((#) TLBrack) (lex n cs)
      else if c = CHR '']'' then map_option ((#) TRBrack) (lex n cs)
      else if c = CHR '':'' then map_option ((#) TColon) (lex n cs)
      else if c = CHR '','' then map_option ((#) TComma) (lex n cs)
      else if c = CHR 0x22 then
        (case lex_string cs of
           None \<Rightarrow> None
         | Some (str, rest) \<Rightarrow> map_option ((#) (TString str)) (lex n rest))
      else if c = CHR ''t'' \<and> prefix ''rue'' cs then map_option ((#) TTrue) (lex n (drop 3 cs))
      else if c = CHR ''f'' \<and> prefix ''alse'' cs then map_option ((#) TFalse) (lex n (drop 4 cs))
      else if c = CHR ''n'' \<and> prefix ''ull'' cs then map_option ((#) TNull) (lex n (drop 3 cs))
      else if c = CHR ''-'' then
        (case lex_digits cs of
           None \<Rightarrow> None
         | Some (m, rest) \<Rightarrow> map_option ((#) (TNumber (- int m))) (lex n rest))
      else if is_digit c then
        (case lex_digits (c # cs) of
           None \<Rightarrow> None
         | Some (m, rest) \<Rightarrow> map_option ((#) (TNumber (int m))) (lex n rest))
      else None)"

fun parse_value :: "nat \<Rightarrow> token list \<Rightarrow> (json \<times> token list) option"
  and parse_elements :: "nat \<Rightarrow> token list \<Rightarrow> (json list \<times> token list) option"
  and parse_members :: "nat \<Rightarrow> token list \<Rightarrow> ((string \<times> json) list \<times> token list) option"
where
  "parse_value 0 ts = None"
| "parse_value (Suc n) [] = None"
| "parse_value (Suc n) (t # ts) =
     (case t of
        TString str \<Rightarrow> Some (JStr str, ts)
      | TNumber i \<Rightarrow> Some (JNum i, ts)
      | TTrue \<Rightarrow> Some (JBool True, ts)
      | TFalse \<Rightarrow> Some (JBool False, ts)
      | TNull \<Rightarrow> Some (JNull, ts)
      | TLBrack \<Rightarrow>
          (case ts of
             TRBrack # rest \<Rightarrow> Some (JArr [], rest)
           | _ \<Rightarrow>
               (case parse_value n ts of
                  None \<Rightarrow> None
                | Some (v, rest) \<Rightarrow>
                    (case parse_elements n rest of
                       None \<Rightarrow> None
                     | Some (vs, rest2) \<Rightarrow> Some (JArr (v # vs), rest2))))
      | TLBrace \<Rightarrow>
          (case ts of
             TRBrace # rest \<Rightarrow> Some (JObj [], rest)
           | TString k # TColon # rest \<Rightarrow>
               (case parse_value n rest of
                  None \<Rightarrow> None
                | Some (v, rest2) \<Rightarrow>
                    (case parse_members n rest2 of
                       None \<Rightarrow> None
                     | Some (kvs, rest3) \<Rightarrow>
                         Some (JObj (foldl (\<lambda>acc (k, v). obj_put k v acc) [] ((k, v) # kvs)), rest3)))
           | _ \<Rightarrow> None)
      | _ \<Rightarrow> None)"
| "parse_elements 0 ts = None"
| "parse_elements (Suc n) ts =
     (case ts of
        TRBrack # rest \<Rightarrow> Some ([], rest)
      | TComma # rest \<Rightarrow>
          (case parse_value n rest of
             None \<Rightarrow> None
           | Some (v, rest2) \<Rightarrow>
               (case parse_elements n rest2 of
                  None \<Rightarrow> None
                | Some (vs, rest3) \<Rightarrow> Some (v # vs, rest3)))
      | _ \<Rightarrow> None)"
| "parse_members 0 ts = None"
| "parse_members (Suc n) ts =
     (case ts of
        TRBrace # rest \<Rightarrow> Some ([], rest)
      | TComma # TString k # TColon # rest \<Rightarrow>
          (case parse_value n rest of
             None \<Rightarrow> None
           | Some (v, rest2) \<Rightarrow>
               (case parse_members n rest2 of
                  None \<Rightarrow> None
                | Some (kvs, rest3) \<Rightarrow> Some ((k, v) # kvs, rest3)))
      | _ \<Rightarrow> None)"

definition json_parse :: "string \<Rightarrow> json option" where
  "json_parse s =
     (case lex (Suc (length s)) s of
        None \<Rightarrow> None
      | Some ts \<Rightarrow>
          (case parse_value (Suc (length ts)) ts of
             Some (v, []) \<Rightarrow> Some v
           | _ \<Rightarrow> None))"

section \<open>The contract of the resolver, and example data\<close>

text \<open>
  The contract in the words of the specification: a subtask qualifies when (a) its id is
  not among the completed ids, (b) its status is neither \<^verbatim>\<open>completed\<close> nor \<^verbatim>\<open>failed\<close>, and
  (c) every one of its dependency ids is among the completed ids.
\<close>

definition qualifies :: "string list \<Rightarrow> subtask \<Rightarrow> bool" where
  "qualifies completedIds s =
     (story_id s \<notin> set completedIds \<and>
      story_status s \<noteq> ''completed'' \<and> story_status s \<noteq> ''failed'' \<and>
      set (dependencies s) \<subseteq> set completedIds)"

text \<open>The subtasks A, B and C of the specification: B and C depend on A.\<close>

definition task_A :: subtask where
  "task_A = \<lparr>story_id = ''A'', story_status = ''pending'', dependencies = [], story_commits = []\<rparr>"

definition task_B :: subtask where
  "task_B = \<lparr>story_id = ''B'', story_status = ''pending'', dependencies = [''A''], story_commits = []\<rparr>"

definition task_C :: subtask where
  "task_C = \<lparr>story_id = ''C'', story_status = ''pending'', dependencies = [''A''], story_commits = []\<rparr>"

section \<open>A host, a configuration and processes to run the engine on\<close>

text \<open>
  A host whose configuration directory holds one set, \<^verbatim>\<open>default\<close>, with its two
  templates and a valid \<^verbatim>\<open>set.json\<close>; paths are joined with a slash.
\<close>

definition example_set_json :: string where
  \<open>example_set_json =
     ''{"name":"plain","version":"1.0.0","conversion":[{"tool":"claude"}],"task":[{"tool":"claude","skipContext":false}]}''\<close>

definition example_files :: "string \<Rightarrow> string + string" where
  "example_files path =
     (if path = ''/home/u/.ralph/sets/default/set.json'' then Inr example_set_json
      else if path = ''/home/u/.ralph/sets/default/executor.prompt.md'' then Inr ''Execute the task.''
      else if path = ''/home/u/.ralph/sets/default/converter.prompt.md'' then Inr ''Convert the document.''
      else Inl ''ENOENT: no such file or directory'')"

definition example_host :: host where
  "example_host =
     \<lparr>parse = json_parse, parse_error = (\<lambda>text. ''Unexpected token''),
      type_error = ''Cannot read properties of null'', homedir = ''/home/u'',
      path_join = join_with ''/'', readFile = example_files,
      expectedStructure = ''{ the default set }'', now = ''2026-01-01T00:00:00.000Z''\<rparr>"

text \<open>
  Lines of an event stream: a result event whose structured result passes, and an
  assistant event that carries a context-compaction signal.
\<close>

definition passing_result_line :: string where
  \<open>passing_result_line =
     ''{"type":"result","structured_output":{"id":"A","status":"completed","dependencies":[],"passes":true,"securityCheck":{"passed":true}}}''\<close>


text \<open>
  Two processes that exit with code 1 after a passing structured result; the second
  one reported a context compaction before.
\<close>

definition failing_proc :: proc where
  "failing_proc =
     \<lparr>stdout_chunks = [passing_result_line @ [CHR 0x0A]], stderr_text = ''boom'',
      ending = Close (Some 1)\<rparr>"


text \<open>Surroundings in which the agent is one process, whatever it is invoked for.\<close>

definition example_env :: "proc \<Rightarrow> surroundings" where
  "example_env p =
     \<lparr>prdPath = ''/work/feature.md'', workDir = ''/work'', prdSource = Some ''# Feature'',
      fileNamePrdId = None, repos = [], validatePaths = (\<lambda>j. (True, [])),
      conversion = p, agent = (\<lambda>n t. p)\<rparr>"

definition empty_world :: world where
  "empty_world =
     \<lparr>dirExists = False, prdFile = None, progressFile = None, taskLog = [], errorLog = [],
      invocations = [], saves = 0, failures = []\<rparr>"






text \<open>
  Work items of one story, progress records over them, and the state directory that
  holds such a pair.
\<close>

definition failed_story :: subtask where
  "failed_story = \<lparr>story_id = ''A'', story_status = ''failed'', dependencies = [], story_commits = []\<rparr>"

definition done_story :: subtask where
  "done_story = \<lparr>story_id = ''A'', story_status = ''completed'', dependencies = [], story_commits = []\<rparr>"

definition example_prd :: "subtask list \<Rightarrow> prd" where
  "example_prd stories = \<lparr>prd_id = ''feature'', prd_prdId = None, targetDirs = [], userStories = stories\<rparr>"

definition example_progress :: "string \<Rightarrow> string list \<Rightarrow> string option \<Rightarrow> progress" where
  "example_progress st done pinned =
     \<lparr>prdId = ''feature'', startedAt = ''2025-12-31T00:00:00.000Z'', completedAt = None,
      completedTasks = done, currentTask = None, status = st, totalTasks = 1, lastError = None,
      summary = None, templateSet = pinned, configPath = None\<rparr>"

definition stored_world :: "prd \<Rightarrow> progress \<Rightarrow> world" where
  "stored_world p g = empty_world\<lparr>dirExists := True, prdFile := Some p, progressFile := Some g\<rparr>"

definition example_state :: "subtask list \<Rightarrow> progress \<Rightarrow> loop_state" where
  "example_state stories g =
     \<lparr>ls_prd = example_prd stories, ls_progress = g, ls_world = stored_world (example_prd stories) g\<rparr>"









text \<open>
  Texts to extract from: the fenced object of the specification; two objects side by
  side; a stream of three events whose second assistant message alone is valid JSON; and
  two lines of events of which the first does not begin with its type.
\<close>

definition fenced_text :: string where
  \<open>fenced_text = ''```json'' @ [CHR 0x0A] @ ''{"a":1}'' @ [CHR 0x0A] @ ''```''\<close>

definition two_objects_text :: string where
  \<open>two_objects_text = ''{"a":1} {"b":2}''\<close>







text \<open>
  The invalid set of the repository's tests, which has a name and nothing else; a legacy
  set without the \<^verbatim>\<open>task\<close> key; and hosts whose \<^verbatim>\<open>set.json\<close> is the one or the other.
\<close>

definition invalid_set_json :: string where
  \<open>invalid_set_json = ''{"name":"invalid-set"}''\<close>

definition invalid_set :: "(string \<times> json) list" where
  "invalid_set = [(''name'', JStr ''invalid-set'')]"

definition legacy_set_json :: string where
  \<open>legacy_set_json = ''{"name":"old","version":"1.0.0","options":{"skipTaskContext":true}}''\<close>

definition host_with_set :: "string \<Rightarrow> host" where
  "host_with_set content =
     example_host\<lparr>readFile :=
       (\<lambda>path. if path = ''/home/u/.ralph/sets/default/set.json'' then Inr content
               else example_files path)\<rparr>"

section \<open>Properties of the resolver\<close>

lemma find_first:
  "find P xs = Some x \<Longrightarrow> \<exists>pre post. xs = pre @ x # post \<and> P x \<and> (\<forall>y\<in>set pre. \<not> P y)"
proof (induction xs)
  case Nil
  then show ?case by simp
next
  case (Cons a xs)
  show ?case
  proof (cases "P a")
    case True
    with Cons.prems have "a = x" by simp
    with True have "a # xs = [] @ x # xs \<and> P x \<and> (\<forall>y\<in>set []. \<not> P y)" by simp
    then show ?thesis by blast
  next
    case False
    with Cons.prems have "find P xs = Some x" by simp
    from Cons.IH[OF this] obtain pre post where
      "xs = pre @ x # post" "P x" "\<forall>y\<in>set pre. \<not> P y" by blast
    with False have "a # xs = (a # pre) @ x # post \<and> P x \<and> (\<forall>y\<in>set (a # pre). \<not> P y)" by simp
    then show ?thesis by blast
  qed
qed

lemma findNextTask_find:
  "findNextTask stories completedIds = find (qualifies completedIds) stories"
proof -
  have "(\<lambda>story. if story_id story \<in> set completedIds then False
              else if story_status story = ''completed'' \<or> story_status story = ''failed''
                then False
              else list_all (\<lambda>depId. depId \<in> set completedIds) (dependencies story))
        = qualifies completedIds"
    by (auto simp: qualifies_def fun_eq_iff list_all_iff)
  then show ?thesis by (simp add: findNextTask_def)
qed

text \<open>
  C1. For every list of subtasks and every list of completed ids, \<^verbatim>\<open>findNextTask\<close> returns
  the first subtask in declaration order that qualifies (its id is not completed, its
  status is neither \<^verbatim>\<open>completed\<close> nor \<^verbatim>\<open>failed\<close>, all its dependencies are completed): the
  subtasks before it do not qualify. It returns none exactly when no subtask qualifies.
  With A, B and C as above the first selection is A, and B (not C) once A is completed.
\<close>

theorem findNextTask_first_qualifying:
  "(case findNextTask stories completedIds of
      None \<Rightarrow> \<forall>s\<in>set stories. \<not> qualifies completedIds s
    | Some t \<Rightarrow>
        \<exists>pre post. stories = pre @ t # post \<and> qualifies completedIds t \<and>
                   (\<forall>s\<in>set pre. \<not> qualifies completedIds s))"
proof (cases "findNextTask stories completedIds")
  case None
  then have "find (qualifies completedIds) stories = None" by (simp add: findNextTask_find)
  then have "\<forall>s\<in>set stories. \<not> qualifies completedIds s" by (simp add: find_None_iff)
  with None show ?thesis by simp
next
  case (Some t)
  then have "find (qualifies completedIds) stories = Some t" by (simp add: findNextTask_find)
  from find_first[OF this] Some show ?thesis by simp
qed

theorem findNextTask_first_qualifying_witness:
  "findNextTask [task_A, task_B, task_C] [] = Some task_A \<and>
   findNextTask [task_A, task_B, task_C] [''A''] = Some task_B \<and>
   qualifies [''A''] task_B \<and> qualifies [''A''] task_C \<and> \<not> qualifies [''A''] task_A \<and>
   findNextTask [task_A, task_B, task_C] [''A'', ''B'', ''C''] = None"
  using findNextTask_first_qualifying [of "[task_A, task_B, task_C]" "[''A'']"]
    findNextTask_first_qualifying [of "[task_A, task_B, task_C]" "[]"]
  by (simp add: findNextTask_def qualifies_def task_A_def task_B_def task_C_def)

section \<open>Properties of the invocation and of the task execution\<close>









section \<open>Properties of the run\<close>

text \<open>
  C2, as amended. Whenever the run loop finds no next subtask, the loop ends with the
  state saved, and the status of the progress record is \<^verbatim>\<open>completed\<close> if every subtask has the
  status \<^verbatim>\<open>completed\<close> or its id among the completed tasks, and \<^verbatim>\<open>blocked\<close> otherwise.
\<close>

theorem no_next_task_status:
  assumes "findNextTask (userStories (ls_prd st)) (completedTasks (ls_progress st)) = None"
  shows "loop_iteration h env cp sn st = Stop (Exit SUCCESS) (no_next_task h st) \<and>
         status (ls_progress (no_next_task h st)) =
           (if (\<forall>s\<in>set (userStories (ls_prd st)).
                  story_status s = ''completed'' \<or> story_id s \<in> set (completedTasks (ls_progress st)))
            then ''completed'' else ''blocked'') \<and>
         progressFile (ls_world (no_next_task h st)) = Some (ls_progress (no_next_task h st)) \<and>
         prdFile (ls_world (no_next_task h st)) = Some (ls_prd st)"
  using assms
  by (simp add: loop_iteration_def no_next_task_def allDone_def saveState_def Let_def list_all_iff)

theorem no_next_task_status_witness:
  "findNextTask [done_story] [] = None \<and>
   status (ls_progress (no_next_task example_host
     (example_state [done_story] (example_progress ''running'' [] None)))) = ''completed'' \<and>
   findNextTask [failed_story] [] = None \<and>
   status (ls_progress (no_next_task example_host
     (example_state [failed_story] (example_progress ''running'' [] None)))) = ''blocked''"
proof -
  have 1: "findNextTask (userStories (ls_prd (example_state [done_story] (example_progress ''running'' [] None))))
             (completedTasks (ls_progress (example_state [done_story] (example_progress ''running'' [] None)))) = None"
    by (simp add: example_state_def example_prd_def example_progress_def findNextTask_def done_story_def)
  have 2: "findNextTask (userStories (ls_prd (example_state [failed_story] (example_progress ''running'' [] None))))
             (completedTasks (ls_progress (example_state [failed_story] (example_progress ''running'' [] None)))) = None"
    by (simp add: example_state_def example_prd_def example_progress_def findNextTask_def failed_story_def)
  from no_next_task_status [OF 1, of example_host] no_next_task_status [OF 2, of example_host] 1 2
  show ?thesis
    by (simp add: example_state_def example_prd_def example_progress_def done_story_def failed_story_def)
qed

text \<open>
  C2 as stated fails: the only subtask has the status \<^verbatim>\<open>failed\<close>, so that every subtask is
  terminal in the sense of the claim and none is eligible; the status becomes \<^verbatim>\<open>blocked\<close>.
\<close>

theorem failed_story_blocks_counterexample:
  "story_status failed_story = ''failed'' \<and>
   userStories (ls_prd (example_state [failed_story] (example_progress ''running'' [] None))) = [failed_story] \<and>
   findNextTask [failed_story] [] = None \<and>
   loop_iteration example_host (example_env failing_proc) None ''default''
       (example_state [failed_story] (example_progress ''running'' [] None)) =
     Stop (Exit SUCCESS)
       (no_next_task example_host (example_state [failed_story] (example_progress ''running'' [] None))) \<and>
   status (ls_progress (no_next_task example_host
      (example_state [failed_story] (example_progress ''running'' [] None)))) = ''blocked''"
  by (simp add: loop_iteration_def no_next_task_def allDone_def saveState_def Let_def
      example_state_def example_prd_def example_progress_def failed_story_def findNextTask_def)

text \<open>
  C3. For an existing project whose progress record pins a template set, a run that asks
  for another set than the pinned one and than \<^verbatim>\<open>default\<close> ends at once, whatever the fuel,
  with the failure \<^verbatim>\<open>Cannot change template set for existing project.\<close> and the exit code
  \<^verbatim>\<open>INVALID_ARGS\<close> (how the engine reports the consistency error). Nothing but the message
  changes: the two documents are as they were, nothing was saved, no agent was invoked.
\<close>

theorem resume_with_other_template_set_refused:
  assumes "dirExists w" and "prdFile w = Some p" and "progressFile w = Some g"
    and "templateSet g = Some pinned" and "pinned \<noteq> []"
    and "arg_templateSet args \<noteq> ''default''" and "arg_templateSet args \<noteq> pinned"
  shows "run h env fuel args w =
           (Exit INVALID_ARGS, w\<lparr>failures := failures w @ [''Cannot change template set for existing project.'']\<rparr>)"
  using assms by (simp add: run_def checkExistingProject_def print_fail_def)

theorem resume_with_other_template_set_refused_witness:
  "run example_host (example_env failing_proc) 5
      \<lparr>dryRun = False, arg_configPath = None, arg_templateSet = ''other''\<rparr>
      (stored_world (example_prd [task_A]) (example_progress ''paused'' [] (Some ''default''))) =
    (Exit INVALID_ARGS,
     (stored_world (example_prd [task_A]) (example_progress ''paused'' [] (Some ''default'')))
       \<lparr>failures := [''Cannot change template set for existing project.'']\<rparr>)"
  using resume_with_other_template_set_refused
    [of "stored_world (example_prd [task_A]) (example_progress ''paused'' [] (Some ''default''))"
        "example_prd [task_A]" "example_progress ''paused'' [] (Some ''default'')" "''default''"
        "\<lparr>dryRun = False, arg_configPath = None, arg_templateSet = ''other''\<rparr>"
        example_host "example_env failing_proc" 5]
  by (simp add: stored_world_def empty_world_def example_progress_def)

text \<open>
  C7, as amended. For an existing project whose progress record has the status
  \<^verbatim>\<open>completed\<close>, a run that does not ask for another template set than the pinned one (or
  asks for \<^verbatim>\<open>default\<close>, or finds none pinned) returns \<^verbatim>\<open>SUCCESS\<close> at once, whatever the fuel,
  and leaves everything as it was: no agent is invoked, nothing is saved.
\<close>

theorem resume_completed_is_noop:
  assumes "dirExists w" and "prdFile w = Some p" and "progressFile w = Some g"
    and "status g = ''completed''"
    and "\<not> truthy_str (templateSet g) \<or> arg_templateSet args = ''default'' \<or>
         Some (arg_templateSet args) = templateSet g"
  shows "run h env fuel args w = (Exit SUCCESS, w)"
  using assms by (auto simp: run_def checkExistingProject_def Let_def)

theorem resume_completed_is_noop_witness:
  "run example_host (example_env failing_proc) 5
      \<lparr>dryRun = False, arg_configPath = None, arg_templateSet = ''default''\<rparr>
      (stored_world (example_prd [done_story]) (example_progress ''completed'' [''A''] (Some ''plain''))) =
    (Exit SUCCESS,
     stored_world (example_prd [done_story]) (example_progress ''completed'' [''A''] (Some ''plain'')))"
  using resume_completed_is_noop
    [of "stored_world (example_prd [done_story]) (example_progress ''completed'' [''A''] (Some ''plain''))"
        "example_prd [done_story]" "example_progress ''completed'' [''A''] (Some ''plain'')"
        "\<lparr>dryRun = False, arg_configPath = None, arg_templateSet = ''default''\<rparr>"
        example_host "example_env failing_proc" 5]
  by (simp add: stored_world_def empty_world_def example_progress_def)

text \<open>
  C7 as stated fails: the project is completed and pins the set \<^verbatim>\<open>plain\<close>; a run that asks
  for the set \<^verbatim>\<open>other\<close> does not return success but \<^verbatim>\<open>INVALID_ARGS\<close>.
\<close>

theorem resume_completed_with_other_set_counterexample:
  "status (example_progress ''completed'' [''A''] (Some ''plain'')) = ''completed'' \<and>
   checkExistingProject
      (stored_world (example_prd [done_story]) (example_progress ''completed'' [''A''] (Some ''plain''))) =
     (True, Some (example_prd [done_story]), Some (example_progress ''completed'' [''A''] (Some ''plain''))) \<and>
   fst (run example_host (example_env failing_proc) 5
      \<lparr>dryRun = False, arg_configPath = None, arg_templateSet = ''other''\<rparr>
      (stored_world (example_prd [done_story]) (example_progress ''completed'' [''A''] (Some ''plain'')))) =
    Exit INVALID_ARGS"
  by (simp add: run_def checkExistingProject_def stored_world_def empty_world_def example_progress_def
      print_fail_def)

section \<open>Properties of the completed tasks\<close>

text \<open>Initialisation creates the progress record with no completed task.\<close>

lemma finish_init_progress:
  assumes "finish_init h env cp sn r converted w = (Inr (InitOk p g), w')"
  shows "g = new_progress h p cp sn"
  using assms unfolding finish_init_def Let_def
  by (auto split: if_splits json.splits option.splits)

lemma init_progress:
  assumes "init h env cp sn w = (Inr (InitOk p g), w')"
  shows "g = new_progress h p cp sn"
  using assms unfolding init_def Let_def
  by (auto split: option.splits sum.splits extracted.splits dest: finish_init_progress)






lemma run_loop_reaches:
  "run_loop h env cp sn n st = (r, st') \<Longrightarrow> reaches h env cp sn st0 kept st \<Longrightarrow>
   \<exists>kept'. reaches h env cp sn st0 kept' st'"
proof (induction n arbitrary: st kept)
  case 0
  then show ?case by auto
next
  case (Suc n)
  show ?case
  proof (cases "loop_iteration h env cp sn st")
    case (Next st1)
    with Suc.prems(1) have "run_loop h env cp sn n st1 = (r, st')" by simp
    moreover from reaches.turn[OF Suc.prems(2) Next]
    have "reaches h env cp sn st0 (kept \<and> story_ids st1 = story_ids st) st1" .
    ultimately show ?thesis using Suc.IH by blast
  next
    case (Stop r1 st1)
    with Suc.prems(1) have "st' = st1" by simp
    with reaches.final[OF Suc.prems(2) Stop] show ?thesis by blast
  qed
qed





section \<open>Properties of the result extraction\<close>

lemma find_sub_first:
  assumes "pat \<noteq> []" and "find_sub pat (pre @ butlast pat) = None"
  shows "find_sub pat (pre @ pat @ rest) = Some (pre, rest)"
  using assms(2)
proof (induction pre)
  case Nil
  from assms(1) obtain c cs where p: "pat = c # cs" by (cases pat) auto
  then show ?case by simp
next
  case (Cons c pre)
  from Cons.prems have np: "\<not> prefix pat (c # pre @ butlast pat)"
    and rec: "find_sub pat (pre @ butlast pat) = None"
    by (auto split: if_splits)
  have "\<not> prefix pat (c # pre @ pat @ rest)"
  proof
    assume a: "prefix pat (c # pre @ pat @ rest)"
    have e: "c # pre @ pat @ rest = (c # pre @ butlast pat) @ ([last pat] @ rest)"
      using assms(1) by simp
    have l: "length pat \<le> length (c # pre @ butlast pat)" by simp
    from a e have "prefix pat ((c # pre @ butlast pat) @ ([last pat] @ rest))" by simp
    with l have "prefix pat (c # pre @ butlast pat)"
      by (metis prefix_length_prefix prefixI)
    with np show False by simp
  qed
  with Cons.IH[OF rec] show ?case by simp
qed

lemma dropWhile_upto:
  "c \<notin> set xs \<Longrightarrow> dropWhile (\<lambda>x. x \<noteq> c) (xs @ c # ys) = c # ys"
  by (induction xs) auto

lemma dropWhile_none:
  "xs \<noteq> [] \<Longrightarrow> \<not> P (hd xs) \<Longrightarrow> dropWhile P xs = xs"
  by (cases xs) auto

lemma object_match_span:
  assumes "CHR ''{'' \<notin> set pre" and "CHR ''}'' \<notin> set post"
  shows "object_match (pre @ [CHR ''{''] @ mid @ [CHR ''}''] @ post) = Some ([CHR ''{''] @ mid @ [CHR ''}''])"
proof -
  have a: "dropWhile (\<lambda>c. c \<noteq> CHR ''{'') (pre @ [CHR ''{''] @ mid @ [CHR ''}''] @ post)
           = CHR ''{'' # mid @ [CHR ''}''] @ post"
    using dropWhile_upto[OF assms(1), of "mid @ [CHR ''}''] @ post"] by simp
  have "CHR ''}'' \<notin> set (rev post)" using assms(2) by simp
  from dropWhile_upto[OF this, of "rev mid @ [CHR ''{'']"]
  have b: "dropWhile (\<lambda>c. c \<noteq> CHR ''}'') (rev (CHR ''{'' # mid @ [CHR ''}''] @ post))
           = CHR ''}'' # rev mid @ [CHR ''{'']"
    by simp
  show ?thesis unfolding object_match_def Let_def a b by simp
qed

lemma trim_id:
  assumes "s \<noteq> []" and "\<not> js_space (hd s)" and "\<not> js_space (last s)"
  shows "trim s = s"
proof -
  have a: "dropWhile js_space s = s" using assms(1,2) by (rule dropWhile_none)
  have "rev s \<noteq> []" using assms(1) by simp
  moreover have "\<not> js_space (hd (rev s))" using assms(1,3) by (simp add: hd_rev)
  ultimately have b: "dropWhile js_space (rev s) = rev s" by (rule dropWhile_none)
  show ?thesis by (simp add: trim_def a b)
qed

lemma fence_match_first:
  assumes "find_sub ''```'' (pre @ ''``'') = None"
    and "tag = [] \<and> \<not> prefix ''json'' (ws @ inner @ ''```'' @ post) \<or> tag = ''json''"
    and "list_all js_space ws"
    and "inner = [] \<or> \<not> js_space (hd inner)"
    and "find_sub ''```'' (inner @ ''``'') = None"
  shows "fence_match (pre @ ''```'' @ tag @ ws @ inner @ ''```'' @ post) = Some inner"
proof -
  have f1: "find_sub ''```'' (pre @ ''```'' @ tag @ ws @ inner @ ''```'' @ post)
            = Some (pre, tag @ ws @ inner @ ''```'' @ post)"
    using find_sub_first[of "''```''" pre] assms(1) by simp
  have f2: "(if prefix ''json'' (tag @ ws @ inner @ ''```'' @ post)
             then drop 4 (tag @ ws @ inner @ ''```'' @ post)
             else tag @ ws @ inner @ ''```'' @ post) = ws @ inner @ ''```'' @ post"
    using assms(2) by auto
  have ns: "\<not> js_space (hd (inner @ ''```'' @ post))"
    using assms(4) by (cases inner) (auto simp: js_space_def)
  have f3: "dropWhile js_space (ws @ inner @ ''```'' @ post) = inner @ ''```'' @ post"
  proof -
    have "dropWhile js_space (ws @ (inner @ ''```'' @ post)) = dropWhile js_space (inner @ ''```'' @ post)"
      using assms(3) by (simp add: dropWhile_append list_all_iff)
    moreover have "dropWhile js_space (inner @ ''```'' @ post) = inner @ ''```'' @ post"
      using ns by (cases "inner @ ''```'' @ post") auto
    ultimately show ?thesis by simp
  qed
  have f4: "find_sub ''```'' (inner @ ''```'' @ post) = Some (inner, post)"
    using find_sub_first[of "''```''" inner] assms(5) by simp
  show ?thesis
    by (simp only: fence_match_def f1 option.case prod.case Let_def f2 f3 f4 option.map fst_conv)
qed

lemma extractJson_of_candidate:
  "contentText prs text = JStr c \<Longrightarrow> extractJson prs text = Inr (parse_candidate prs c)"
  by (simp add: extractJson_def)





text \<open>
  C6, as amended. From a candidate text the extraction takes what the first pair of
  fences encloses, after an optional \<^verbatim>\<open>json\<close> tag and the white space that follows (any other
  tag stays part of the text), or the whole candidate when it has no fence; of that it
  takes the span from the first opening brace to the last closing brace after it, or all
  of it when there is none; and it parses that text, trimmed. A failure of the parse is
  the result \<^verbatim>\<open>ParseError\<close>, which is not a transport error. The fenced object of the
  specification yields the object.
\<close>

theorem extract_from_candidate:
  assumes "contentText prs text = JStr c"
  shows "extractJson prs text =
           Inr (case prs (trim (jsonStr c)) of Some v \<Rightarrow> Parsed v | None \<Rightarrow> ParseError) \<and>
         (\<forall>pre tag ws inner post.
            c = pre @ ''```'' @ tag @ ws @ inner @ ''```'' @ post \<longrightarrow>
            find_sub ''```'' (pre @ ''``'') = None \<longrightarrow>
            (tag = [] \<and> \<not> prefix ''json'' (ws @ inner @ ''```'' @ post) \<or> tag = ''json'') \<longrightarrow>
            list_all js_space ws \<longrightarrow>
            (inner = [] \<or> \<not> js_space (hd inner)) \<longrightarrow>
            find_sub ''```'' (inner @ ''``'') = None \<longrightarrow>
            jsonStr c = (case object_match inner of Some obj \<Rightarrow> obj | None \<Rightarrow> inner)) \<and>
         (find_sub ''```'' c = None \<longrightarrow>
            jsonStr c = (case object_match c of Some obj \<Rightarrow> obj | None \<Rightarrow> c)) \<and>
         (\<forall>s pre mid post.
            s = pre @ [CHR ''{''] @ mid @ [CHR ''}''] @ post \<longrightarrow>
            CHR ''{'' \<notin> set pre \<longrightarrow> CHR ''}'' \<notin> set post \<longrightarrow>
            object_match s = Some ([CHR ''{''] @ mid @ [CHR ''}'']) \<and>
            trim ([CHR ''{''] @ mid @ [CHR ''}'']) = [CHR ''{''] @ mid @ [CHR ''}''])"
proof -
  have a: "extractJson prs text =
           Inr (case prs (trim (jsonStr c)) of Some v \<Rightarrow> Parsed v | None \<Rightarrow> ParseError)"
    using extractJson_of_candidate[OF assms] by (simp add: parse_candidate_def)
  have b: "jsonStr c = (case object_match inner of Some obj \<Rightarrow> obj | None \<Rightarrow> inner)"
    if "c = pre @ ''```'' @ tag @ ws @ inner @ ''```'' @ post"
      and "find_sub ''```'' (pre @ ''``'') = None"
      and "tag = [] \<and> \<not> prefix ''json'' (ws @ inner @ ''```'' @ post) \<or> tag = ''json''"
      and "list_all js_space ws"
      and "inner = [] \<or> \<not> js_space (hd inner)"
      and "find_sub ''```'' (inner @ ''``'') = None"
    for pre tag ws inner post
  proof -
    from fence_match_first[OF that(2-6)] that(1) have "fence_match c = Some inner" by simp
    then show ?thesis by (simp add: jsonStr_def)
  qed
  have c: "jsonStr c = (case object_match c of Some obj \<Rightarrow> obj | None \<Rightarrow> c)"
    if "find_sub ''```'' c = None"
    using that by (simp add: jsonStr_def fence_match_def)
  have d: "object_match s = Some ([CHR ''{''] @ mid @ [CHR ''}'']) \<and>
           trim ([CHR ''{''] @ mid @ [CHR ''}'']) = [CHR ''{''] @ mid @ [CHR ''}'']"
    if "s = pre @ [CHR ''{''] @ mid @ [CHR ''}''] @ post"
      and "CHR ''{'' \<notin> set pre" and "CHR ''}'' \<notin> set post"
    for s pre mid post
  proof -
    have "trim ([CHR ''{''] @ mid @ [CHR ''}'']) = [CHR ''{''] @ mid @ [CHR ''}'']"
      by (rule trim_id) (simp_all add: js_space_def)
    with object_match_span[OF that(2,3)] that(1) show ?thesis by simp
  qed
  from a b c d show ?thesis by blast
qed

lemma fenced_text_candidate: "contentText json_parse fenced_text = JStr fenced_text"
  by code_simp

theorem extract_from_candidate_witness:
  \<open>contentText json_parse fenced_text = JStr fenced_text \<and>
   find_sub ''```'' ([] @ ''``'') = None \<and> list_all js_space [CHR 0x0A] \<and>
   \<not> js_space (hd (''{"a":1}'' @ [CHR 0x0A])) \<and>
   find_sub ''```'' ((''{"a":1}'' @ [CHR 0x0A]) @ ''``'') = None \<and>
   CHR ''}'' \<notin> set [CHR 0x0A] \<and>
   jsonStr fenced_text = ''{"a":1}'' \<and>
   extractJson json_parse fenced_text = Inr (Parsed (JObj [(''a'', JNum 1)]))\<close>
proof -
  note inst = extract_from_candidate [OF fenced_text_candidate]
  have shape: \<open>fenced_text = [] @ ''```'' @ ''json'' @ [CHR 0x0A] @ (''{"a":1}'' @ [CHR 0x0A]) @ ''```'' @ []\<close>
    by (simp add: fenced_text_def)
  have h1: "find_sub ''```'' ([] @ ''``'') = None" by simp
  have h2: "list_all js_space [CHR 0x0A]" by (simp add: js_space_def)
  have h3: \<open>\<not> js_space (hd (''{"a":1}'' @ [CHR 0x0A]))\<close> by (simp add: js_space_def)
  have h4: \<open>find_sub ''```'' ((''{"a":1}'' @ [CHR 0x0A]) @ ''``'') = None\<close> by simp
  have h5: "CHR ''}'' \<notin> set [CHR 0x0A]" by simp
  from inst shape h1 h2 h3 h4
  have inner: \<open>jsonStr fenced_text =
      (case object_match (''{"a":1}'' @ [CHR 0x0A]) of Some obj \<Rightarrow> obj | None \<Rightarrow> ''{"a":1}'' @ [CHR 0x0A])\<close>
    by blast
  have shape2: \<open>''{"a":1}'' @ [CHR 0x0A] = [] @ [CHR ''{''] @ ''"a":1'' @ [CHR ''}''] @ [CHR 0x0A]\<close>
    by simp
  from inst shape2 h5
  have span: \<open>object_match (''{"a":1}'' @ [CHR 0x0A]) = Some ([CHR ''{''] @ ''"a":1'' @ [CHR ''}'']) \<and>
      trim ([CHR ''{''] @ ''"a":1'' @ [CHR ''}'']) = [CHR ''{''] @ ''"a":1'' @ [CHR ''}'']\<close>
    by (metis empty_iff empty_set)
  from inner span have j: \<open>jsonStr fenced_text = ''{"a":1}''\<close> by simp
  have p: \<open>json_parse (trim ''{"a":1}'') = Some (JObj [(''a'', JNum 1)])\<close> by code_simp
  from inst j p have \<open>extractJson json_parse fenced_text = Inr (Parsed (JObj [(''a'', JNum 1)]))\<close>
    by simp
  with fenced_text_candidate h1 h2 h3 h4 h5 j show ?thesis by simp
qed

text \<open>
  C6 as stated fails: the candidate holds two objects side by side. Its first top-level
  object parses; the extraction takes the span from the first opening brace to the last
  closing brace, which is the whole text, and ends in a parse error.
\<close>

theorem two_objects_counterexample:
  \<open>json_parse ''{"a":1}'' = Some (JObj [(''a'', JNum 1)]) \<and>
   prefix ''{"a":1}'' two_objects_text \<and>
   contentText json_parse two_objects_text = JStr two_objects_text \<and>
   jsonStr two_objects_text = two_objects_text \<and>
   extractJson json_parse two_objects_text = Inr ParseError\<close>
  by code_simp

section \<open>Properties of the configuration validation\<close>

lemma map_of_obj_put:
  "map_of (obj_put k v kvs) k' = (if k' = k then Some v else map_of kvs k')"
  by (induction kvs) auto

lemma wrap_phase_object:
  "\<exists>kvs' m'. wrap_phase phase (JObj kvs, m) = (JObj kvs', m') \<and>
     (\<forall>k. k \<noteq> phase \<longrightarrow> map_of kvs' k = map_of kvs k) \<and>
     (map_of kvs phase = None \<longrightarrow> kvs' = kvs)"
  by (auto simp: wrap_phase_def members_def map_of_obj_put split: option.splits)

lemma sublist_inside: "sublist xs (ps @ xs @ ss)"
  unfolding sublist_def by blast

lemma sublist_widen: "sublist xs ys \<Longrightarrow> sublist xs (ps @ ys @ ss)"
proof -
  assume "sublist xs ys"
  then obtain p s where "ys = p @ xs @ s" unfolding sublist_def by blast
  then have "ps @ ys @ ss = (ps @ p) @ xs @ (s @ ss)" by simp
  then show ?thesis unfolding sublist_def by blast
qed

lemma sublist_join_with:
  "m \<in> set ms \<Longrightarrow> sublist m (join_with sep ms)"
proof (induction sep ms rule: join_with.induct)
  case (1 sep)
  then show ?case by simp
next
  case (2 sep x)
  then show ?case by simp
next
  case (3 sep x y ys)
  show ?case
  proof (cases "m = x")
    case True
    have "sublist x ([] @ x @ (sep @ join_with sep (y # ys)))" by (rule sublist_inside)
    with True show ?thesis by simp
  next
    case False
    with 3 have "sublist m (join_with sep (y # ys))" by simp
    then have "sublist m ((x @ sep) @ join_with sep (y # ys) @ [])" by (rule sublist_widen)
    then show ?thesis by simp
  qed
qed

lemma validate_missing_keys:
  assumes "map_of kvs ''task'' = None"
  shows "validateSetConfig (JObj kvs) =
           Inr (False, map missing_key_message (filter (\<lambda>key. map_of kvs key = None) requiredKeys))"
proof -
  have "filter (\<lambda>key. map_of kvs key = None) requiredKeys \<noteq> []"
    using assms by (simp add: requiredKeys_def)
  then show ?thesis by (simp add: validateSetConfig_def Let_def)
qed

lemma loadSetConfig_error:
  assumes "loadSetConfig h cp sn = Inl e"
  shows "\<exists>m. e = Error (not_found_or_invalid h (setJsonPath h cp sn) m)"
  using assms unfolding loadSetConfig_def Let_def
  by (auto split: sum.splits)

lemma expected_in_message:
  "sublist (''Expected structure:'' @ [CHR 0x0A] @ expectedStructure h) (not_found_or_invalid h path m)"
proof -
  have "not_found_or_invalid h path m =
        (''Set config not found or invalid: '' @ path @ [CHR 0x0A] @ ''Error: '' @ m @ [CHR 0x0A]) @
        (''Expected structure:'' @ [CHR 0x0A] @ expectedStructure h) @
        ([CHR 0x0A] @ ''Copy examples/.ralph/ to ~/.ralph/'')"
    by (simp add: not_found_or_invalid_def)
  then show ?thesis by (simp only: sublist_inside)
qed

lemma inner_in_message:
  assumes "sublist x m"
  shows "sublist x (not_found_or_invalid h path m)"
proof -
  have "not_found_or_invalid h path m =
        (''Set config not found or invalid: '' @ path @ [CHR 0x0A] @ ''Error: '') @ m @
        ([CHR 0x0A] @ ''Expected structure:'' @ [CHR 0x0A] @ expectedStructure h @ [CHR 0x0A] @
         ''Copy examples/.ralph/ to ~/.ralph/'')"
    by (simp add: not_found_or_invalid_def)
  with sublist_widen[OF assms] show ?thesis by (simp only:)
qed

lemma message_in_validation_failed:
  assumes "x \<in> set ms"
  shows "sublist x (validation_failed h path ms)"
proof -
  from assms have s: "sublist x (join_with ([CHR 0x0A] @ ''  - '') ms)" by (rule sublist_join_with)
  have "validation_failed h path ms =
        (''Set config validation failed: '' @ path @ [CHR 0x0A] @ ''Errors:'' @ [CHR 0x0A] @ ''  - '') @
        join_with ([CHR 0x0A] @ ''  - '') ms @
        ([CHR 0x0A] @ ''Expected structure:'' @ [CHR 0x0A] @ expectedStructure h)"
    by (simp add: validation_failed_def)
  with sublist_widen[OF s] show ?thesis by (simp only:)
qed

lemma migrate_plain:
  assumes "map_of kvs ''task'' = None"
    and "js_opt_prop (map_of kvs ''options'') ''skipTaskContext'' = None"
  shows "\<exists>kvs' m. migrateSetConfig (JObj kvs) = Inr (JObj kvs', m) \<and> map_of kvs' ''task'' = None"
proof -
  from wrap_phase_object[of "''conversion''" kvs False] obtain kvs1 m1 where
    c: "wrap_phase ''conversion'' (JObj kvs, False) = (JObj kvs1, m1)"
    and k1: "\<forall>k. k \<noteq> ''conversion'' \<longrightarrow> map_of kvs1 k = map_of kvs k"
    by blast
  from k1 assms(1) have t1: "map_of kvs1 ''task'' = None" by simp
  from wrap_phase_object[of "''task''" kvs1 m1] t1 obtain m2 where
    t: "wrap_phase ''task'' (JObj kvs1, m1) = (JObj kvs1, m2)"
    by auto
  from assms(2) c t have "migrateSetConfig (JObj kvs) = Inr (JObj kvs1, m2)"
    by (simp add: migrateSetConfig_def)
  with t1 show ?thesis by blast
qed

text \<open>
  C8. For every set configuration that is an object without the member \<^verbatim>\<open>task\<close>, the
  validation answers invalid, and its messages are the messages of the missing required
  keys and nothing else, the one that names \<^verbatim>\<open>task\<close> among them: no message of a phase list
  or of a tool. Every error that loading a set raises holds the expected structure; and
  loading a file that parses to such a configuration raises an error that holds the
  message naming \<^verbatim>\<open>task\<close>, unless the configuration has the legacy shape that the loader
  rewrites before it validates.
\<close>

theorem missing_task_key_reported:
  assumes "map_of kvs ''task'' = None"
  shows \<open>validateSetConfig (JObj kvs) =
           Inr (False, map missing_key_message (filter (\<lambda>key. map_of kvs key = None) requiredKeys)) \<and>
         missing_key_message ''task'' = ''set.json: Missing required key "task"'' \<and>
         missing_key_message ''task'' \<in>
           set (map missing_key_message (filter (\<lambda>key. map_of kvs key = None) requiredKeys)) \<and>
         (\<forall>e. loadSetConfig h cp sn = Inl e \<longrightarrow>
            (\<exists>m. e = Error m \<and>
                 sublist (''Expected structure:'' @ [CHR 0x0A] @ expectedStructure h) m)) \<and>
         (readFile h (setJsonPath h cp sn) = Inr content \<longrightarrow> parse h content = Some (JObj kvs) \<longrightarrow>
          js_opt_prop (map_of kvs ''options'') ''skipTaskContext'' = None \<longrightarrow>
            (\<exists>m. loadSetConfig h cp sn = Inl (Error m) \<and>
                 sublist (missing_key_message ''task'') m \<and>
                 sublist (''Expected structure:'' @ [CHR 0x0A] @ expectedStructure h) m))\<close>
proof -
  note v = validate_missing_keys[OF assms]
  have n: \<open>missing_key_message ''task'' = ''set.json: Missing required key "task"''\<close>
    by (simp add: missing_key_message_def)
  have i: "missing_key_message ''task'' \<in>
           set (map missing_key_message (filter (\<lambda>key. map_of kvs key = None) requiredKeys))"
    using assms by (simp add: requiredKeys_def)
  have l: "\<exists>m. e = Error m \<and> sublist (''Expected structure:'' @ [CHR 0x0A] @ expectedStructure h) m"
    if "loadSetConfig h cp sn = Inl e" for e
    using loadSetConfig_error[OF that] expected_in_message by blast
  have r: "\<exists>m. loadSetConfig h cp sn = Inl (Error m) \<and>
                 sublist (missing_key_message ''task'') m \<and>
                 sublist (''Expected structure:'' @ [CHR 0x0A] @ expectedStructure h) m"
    if f: "readFile h (setJsonPath h cp sn) = Inr content" and p: "parse h content = Some (JObj kvs)"
      and o: "js_opt_prop (map_of kvs ''options'') ''skipTaskContext'' = None"
  proof -
    from migrate_plain[OF assms o] obtain kvs' mg where
      mg: "migrateSetConfig (JObj kvs) = Inr (JObj kvs', mg)" and t: "map_of kvs' ''task'' = None"
      by blast
    let ?ms = "map missing_key_message (filter (\<lambda>key. map_of kvs' key = None) requiredKeys)"
    from validate_missing_keys[OF t] have vv: "validateSetConfig (JObj kvs') = Inr (False, ?ms)" .
    have mem: "missing_key_message ''task'' \<in> set ?ms" using t by (simp add: requiredKeys_def)
    let ?path = "setJsonPath h cp sn"
    from f p mg vv have e: "loadSetConfig h cp sn =
        Inl (Error (not_found_or_invalid h ?path (validation_failed h ?path ?ms)))"
      by (simp add: loadSetConfig_def Let_def message_of_def)
    from message_in_validation_failed[OF mem] have
      "sublist (missing_key_message ''task'') (validation_failed h ?path ?ms)" .
    then have "sublist (missing_key_message ''task'')
                 (not_found_or_invalid h ?path (validation_failed h ?path ?ms))"
      by (rule inner_in_message)
    with e expected_in_message show ?thesis by blast
  qed
  from v n i l r show ?thesis by blast
qed

lemma invalid_set_parsed:
  "parse (host_with_set invalid_set_json) invalid_set_json = Some (JObj invalid_set)"
  by code_simp

theorem missing_task_key_reported_witness:
  \<open>map_of invalid_set ''task'' = None \<and>
   validateSetConfig (JObj invalid_set) =
     Inr (False, [''set.json: Missing required key "version"'',
                  ''set.json: Missing required key "conversion"'',
                  ''set.json: Missing required key "task"'']) \<and>
   (case loadSetConfig (host_with_set invalid_set_json) None ''default'' of
      Inl (Error m) \<Rightarrow>
        sublist ''set.json: Missing required key "task"'' m \<and>
        sublist (''Expected structure:'' @ [CHR 0x0A] @ ''{ the default set }'') m
    | _ \<Rightarrow> False)\<close>
proof -
  have t: "map_of invalid_set ''task'' = None" by (simp add: invalid_set_def)
  have f: "readFile (host_with_set invalid_set_json)
             (setJsonPath (host_with_set invalid_set_json) None ''default'') = Inr invalid_set_json"
    by code_simp
  have o: "js_opt_prop (map_of invalid_set ''options'') ''skipTaskContext'' = None"
    by (simp add: invalid_set_def)
  have x: "expectedStructure (host_with_set invalid_set_json) = ''{ the default set }''"
    by (simp add: host_with_set_def example_host_def)
  have ms: \<open>map missing_key_message (filter (\<lambda>key. map_of invalid_set key = None) requiredKeys) =
      [''set.json: Missing required key "version"'',
       ''set.json: Missing required key "conversion"'',
       ''set.json: Missing required key "task"'']\<close>
    by (simp add: invalid_set_def requiredKeys_def missing_key_message_def)
  note inst = missing_task_key_reported [OF t, of "host_with_set invalid_set_json" None "''default''" invalid_set_json]
  from inst f invalid_set_parsed o obtain m where
    m: "loadSetConfig (host_with_set invalid_set_json) None ''default'' = Inl (Error m)"
      "sublist (missing_key_message ''task'') m"
      "sublist (''Expected structure:'' @ [CHR 0x0A] @ expectedStructure (host_with_set invalid_set_json)) m"
    by blast
  from inst have v: "validateSetConfig (JObj invalid_set) =
      Inr (False, map missing_key_message (filter (\<lambda>key. map_of invalid_set key = None) requiredKeys))"
    by blast
  from m x have \<open>(case loadSetConfig (host_with_set invalid_set_json) None ''default'' of
      Inl (Error m) \<Rightarrow>
        sublist ''set.json: Missing required key "task"'' m \<and>
        sublist (''Expected structure:'' @ [CHR 0x0A] @ ''{ the default set }'') m
    | _ \<Rightarrow> False)\<close>
    by (simp add: missing_key_message_def)
  with t v ms show ?thesis by simp
qed

text \<open>
  The legacy shape: a flat \<^verbatim>\<open>options.skipTaskContext\<close> and no \<^verbatim>\<open>task\<close> key. The loader
  rewrites it into the two phase lists before it validates, and raises nothing.
\<close>

lemma legacy_set_is_migrated:
  "(case loadSetConfig (host_with_set legacy_set_json) None ''default'' of
      Inr setConfig \<Rightarrow> js_prop setConfig ''task'' \<noteq> None
    | Inl e \<Rightarrow> False)"
  by code_simp

end
